theory Spec2Isabelle
  imports Complex_Main "HOL-Library.Word"
begin

section \<open>Python values\<close>

text \<open>
  The values the program handles: what \<^verbatim>\<open>response.json()\<close> and \<^verbatim>\<open>json.loads\<close> produce
  (None, booleans, numbers, strings, lists, dictionaries with string keys) and the tuple that
  \<^verbatim>\<open>image_processor.process_image_to_json\<close> builds when the API key is missing. A dictionary
  is an association list in insertion order, looked up from the front. A float is represented
  by its rational value (NaN and the infinities are not represented).
\<close>

datatype py_val =
    PNone
  | PBool bool
  | PInt int
  | PFloat rat
  | PStr string
  | PList "py_val list"
  | PTuple "py_val list"
  | PDict "(string \<times> py_val) list"

text \<open>Truth value testing, as \<^verbatim>\<open>if x\<close>, \<^verbatim>\<open>not x\<close> and \<^verbatim>\<open>x and y\<close> apply it.\<close>

fun truthy :: "py_val \<Rightarrow> bool" where
  "truthy PNone = False"
| "truthy (PBool b) = b"
| "truthy (PInt i) = (i \<noteq> 0)"
| "truthy (PFloat r) = (r \<noteq> 0)"
| "truthy (PStr s) = (s \<noteq> [])"
| "truthy (PList xs) = (xs \<noteq> [])"
| "truthy (PTuple xs) = (xs \<noteq> [])"
| "truthy (PDict d) = (d \<noteq> [])"

text \<open>
  The exceptions that can arise inside \<^verbatim>\<open>process_image_to_json\<close>: the three kinds its
  handlers name, the built-in ones that attribute access and subscripting raise, and the two
  that the JSON parser raises besides JSONDecodeError (RecursionError on nesting beyond the
  recursion limit, ValueError on an integer beyond the digit limit; this ValueError is not a
  JSONDecodeError).
\<close>

datatype py_exn =
    HTTPError
  | RequestException
  | JSONDecodeError
  | AttributeError
  | IndexError
  | KeyError
  | TypeError
  | RecursionError
  | ValueError

type_synonym 'a result = "py_exn + 'a"

definition then_do :: "'a result \<Rightarrow> ('a \<Rightarrow> 'b result) \<Rightarrow> 'b result" where
  "then_do r f = (case r of Inl e \<Rightarrow> Inl e | Inr v \<Rightarrow> f v)"

text \<open>\<^verbatim>\<open>d.get(key, default)\<close>: only a dictionary has the method.\<close>

definition dict_get :: "(string \<times> py_val) list \<Rightarrow> string \<Rightarrow> py_val \<Rightarrow> py_val" where
  "dict_get d k dflt = (case map_of d k of None \<Rightarrow> dflt | Some v \<Rightarrow> v)"

fun py_get :: "py_val \<Rightarrow> string \<Rightarrow> py_val \<Rightarrow> py_val result" where
  "py_get (PDict d) k dflt = Inr (dict_get d k dflt)"
| "py_get _ k dflt = Inl AttributeError"

text \<open>
  \<^verbatim>\<open>x[key]\<close> for an integer index or a string key. Sequences raise IndexError out of
  range (negative indices count from the end) and TypeError on a string key; a dictionary,
  whose keys are all strings, raises KeyError on a missing key and on every integer; the other
  values are not subscriptable.
\<close>

datatype py_key = Idx int | Key string

definition seq_index :: "'a list \<Rightarrow> int \<Rightarrow> 'a result" where
  "seq_index xs i =
     (if 0 \<le> i \<and> i < int (length xs) then Inr (xs ! nat i)
      else if i < 0 \<and> - int (length xs) \<le> i then Inr (xs ! nat (int (length xs) + i))
      else Inl IndexError)"

fun py_getitem :: "py_val \<Rightarrow> py_key \<Rightarrow> py_val result" where
  "py_getitem (PList xs) (Idx i) = seq_index xs i"
| "py_getitem (PTuple xs) (Idx i) = seq_index xs i"
| "py_getitem (PStr s) (Idx i) = then_do (seq_index s i) (\<lambda>c. Inr (PStr [c]))"
| "py_getitem (PDict d) (Key k) = (case map_of d k of None \<Rightarrow> Inl KeyError | Some v \<Rightarrow> Inr v)"
| "py_getitem (PDict d) (Idx i) = Inl KeyError"
| "py_getitem _ _ = Inl TypeError"

section \<open>The environment and the observable effects\<close>

text \<open>
  A response of the upstream service, as the code reads it: the status code and what
  \<^verbatim>\<open>response.json()\<close> gives, the decoded body or the exception it raises. A body that is
  not JSON raises the library's JSONDecodeError, which is a RequestException; the parser's
  RecursionError and ValueError come through as they are.
\<close>

record http_response =
  status_code :: int
  json_body :: "py_val result"

text \<open>\<^verbatim>\<open>requests.post\<close> either returns a response or raises for a network-level failure.\<close>

datatype post_outcome = Responded http_response | ConnectionFailed

text \<open>
  The effects of a run, in order: each request posted (URL and payload) and each sleep.
  Console output is not part of the model.
\<close>

datatype event = Post string py_val | Sleep int

text \<open>
  What the code takes from outside: the environment variable, the upstream service (its
  answer may depend on everything that happened so far, the request included) and the
  standard JSON parser on a string: the parsed value, or the exception it raises
  (JSONDecodeError on a text that is not JSON, RecursionError, ValueError).
\<close>

record env =
  GEMINI_API_KEY :: "string option"
  upstream :: "event list \<Rightarrow> post_outcome"
  loads :: "string \<Rightarrow> py_val result"

definition API_KEY :: "env \<Rightarrow> string" where
  "API_KEY e = (case GEMINI_API_KEY e of None \<Rightarrow> [] | Some k \<Rightarrow> k)"

definition API_URL_BASE :: string where
  "API_URL_BASE = ''https://generativelanguage.googleapis.com/v1beta/models/''"

definition MODEL_NAME :: string where
  "MODEL_NAME = ''gemini-2.5-flash-preview-09-2025''"

definition API_URL :: "env \<Rightarrow> string" where
  "API_URL e = API_URL_BASE @ MODEL_NAME @ '':generateContent?key='' @ API_KEY e"

section \<open>image_processor.py\<close>

definition system_instruction :: string where
  "system_instruction =
     ''You are an expert visual data extractor and summarizer. '' @
     ''Your task is to analyze the provided image and generate a concise, '' @
     ''accurate JSON object that strictly adheres to the given schema and '' @
     ''answers the user's prompt. Do not include any external commentary.''"

definition build_payload :: "string \<Rightarrow> string \<Rightarrow> string \<Rightarrow> py_val \<Rightarrow> py_val" where
  "build_payload image_base64 mime_type prompt response_schema =
     PDict [
       (''contents'', PList [
          PDict [
            (''role'', PStr ''user''),
            (''parts'', PList [
               PDict [(''text'', PStr prompt)],
               PDict [(''inlineData'',
                  PDict [(''mimeType'', PStr mime_type), (''data'', PStr image_base64)])]])]]),
       (''systemInstruction'', PDict [(''parts'', PList [PDict [(''text'', PStr system_instruction)]])]),
       (''generationConfig'',
          PDict [(''responseMimeType'', PStr ''application/json''),
                 (''responseSchema'', response_schema)])]"

text \<open>\<^verbatim>\<open>response.raise_for_status()\<close> raises HTTPError for the 4xx and 5xx codes.\<close>

definition raises_for_status :: "http_response \<Rightarrow> bool" where
  "raises_for_status response = (400 \<le> status_code response \<and> status_code response < 600)"

text \<open>
  \<^verbatim>\<open>json.loads(x)\<close>: TypeError unless \<open>x\<close> is a string; on a string, whatever the parser
  gives or raises.
\<close>

definition json_loads :: "env \<Rightarrow> py_val \<Rightarrow> py_val result" where
  "json_loads e x = (case x of PStr s \<Rightarrow> loads e s | _ \<Rightarrow> Inl TypeError)"

text \<open>
  The statements of the \<^verbatim>\<open>try\<close> block after the request was answered (lines 97 to 108):
  the value is what the block returns, or the exception that leaves it.
\<close>

definition try_body :: "env \<Rightarrow> http_response \<Rightarrow> py_val result" where
  "try_body e response =
     (if raises_for_status response then Inl HTTPError
      else case json_body response of
        Inl ex \<Rightarrow> Inl ex
      | Inr result \<Rightarrow>
          then_do (py_get result ''candidates'' (PList [PDict []])) (\<lambda>candidates.
          then_do (py_getitem candidates (Idx 0)) (\<lambda>candidate.
          if \<not> truthy candidate then Inr PNone
          else
            then_do (py_get candidate ''content'' PNone) (\<lambda>content.
            if \<not> truthy content then Inr PNone
            else
              then_do (py_getitem candidate (Key ''content'')) (\<lambda>content2.
              then_do (py_get content2 ''parts'' PNone) (\<lambda>parts.
              if \<not> truthy parts then Inr PNone
              else
                then_do (py_getitem candidate (Key ''content'')) (\<lambda>c.
                then_do (py_getitem c (Key ''parts'')) (\<lambda>ps.
                then_do (py_getitem ps (Idx 0)) (\<lambda>part.
                then_do (py_getitem part (Key ''text'')) (\<lambda>json_string.
                json_loads e json_string))))))))))"

text \<open>
  The \<^verbatim>\<open>for attempt in range(max_retries)\<close> loop with its handlers (lines 90 to 125),
  from attempt \<open>attempt\<close> on. The result is the value returned (\<open>Inr\<close>) or the exception that
  no handler catches (\<open>Inl\<close>), with the effects so far.
\<close>

function retry_loop ::
  "env \<Rightarrow> py_val \<Rightarrow> int \<Rightarrow> int \<Rightarrow> event list \<Rightarrow> py_val result \<times> event list" where
  "retry_loop e payload max_retries attempt tr =
     (if attempt < max_retries then
        (let tr1 = tr @ [Post (API_URL e) payload] in
         case upstream e tr1 of
           ConnectionFailed \<Rightarrow> (Inr PNone, tr1)
         | Responded response \<Rightarrow>
             (case try_body e response of
                Inr v \<Rightarrow> (Inr v, tr1)
              | Inl HTTPError \<Rightarrow>
                  if status_code response \<in> set [429, 500, 503] \<and> attempt < max_retries - 1
                  then retry_loop e payload max_retries (attempt + 1)
                         (tr1 @ [Sleep (2 ^ nat attempt)])
                  else (Inr PNone, tr1)
              | Inl RequestException \<Rightarrow> (Inr PNone, tr1)
              | Inl JSONDecodeError \<Rightarrow> (Inr PNone, tr1)
              | Inl ex \<Rightarrow> (Inl ex, tr1)))
      else (Inr PNone, tr))"
  by pat_completeness auto
termination
  by (relation "measure (\<lambda>(e, payload, max_retries, attempt, tr). nat (max_retries - attempt))")
     auto

declare retry_loop.simps [simp del]

definition process_image_to_json ::
  "env \<Rightarrow> string \<Rightarrow> string \<Rightarrow> string \<Rightarrow> py_val \<Rightarrow> int \<Rightarrow> event list
     \<Rightarrow> py_val result \<times> event list" where
  "process_image_to_json e image_base64 mime_type prompt response_schema max_retries tr =
     (if API_KEY e = [] then
        (Inr (PTuple [PDict [(''error'', PStr ''API Key is missing'')], PInt 401]), tr)
      else
        retry_loop e (build_payload image_base64 mime_type prompt response_schema)
          max_retries 0 tr)"

text \<open>
  \<^verbatim>\<open>base64.b64encode(image_bytes).decode("utf-8")\<close>: the standard Base64 encoding, three
  bytes to four characters of the alphabet, the last group padded with \<open>=\<close>. The characters
  are ASCII, so decoding them as UTF-8 changes nothing.
\<close>

definition b64_alphabet :: string where
  "b64_alphabet = ''ABCDEFGHIJKLMNOPQRSTUVWXYZabcdefghijklmnopqrstuvwxyz0123456789+/''"

definition b64_char :: "nat \<Rightarrow> char" where
  "b64_char n = b64_alphabet ! (n mod 64)"

fun b64encode :: "8 word list \<Rightarrow> string" where
  "b64encode [] = []"
| "b64encode [a] =
     (let n = unat a * 65536
      in [b64_char (n div 262144), b64_char (n div 4096), CHR ''='', CHR ''=''])"
| "b64encode [a, b] =
     (let n = unat a * 65536 + unat b * 256
      in [b64_char (n div 262144), b64_char (n div 4096), b64_char (n div 64), CHR ''=''])"
| "b64encode (a # b # c # rest) =
     (let n = unat a * 65536 + unat b * 256 + unat c
      in [b64_char (n div 262144), b64_char (n div 4096), b64_char (n div 64), b64_char n]
         @ b64encode rest)"

definition bytes_to_base64 :: "8 word list \<Rightarrow> string" where
  "bytes_to_base64 image_bytes = b64encode image_bytes"

section \<open>main.py\<close>

text \<open>
  The second copy of \<^verbatim>\<open>process_image_to_json\<close>, translated from its own text (lines 44 to
  144 of main.py). It shares the configuration lines and the payload with image_processor.py.
\<close>

definition main_try_body :: "env \<Rightarrow> http_response \<Rightarrow> py_val result" where
  "main_try_body e response =
     (if raises_for_status response then Inl HTTPError
      else case json_body response of
        Inl ex \<Rightarrow> Inl ex
      | Inr result \<Rightarrow>
          then_do (py_get result ''candidates'' (PList [PDict []])) (\<lambda>candidates.
          then_do (py_getitem candidates (Idx 0)) (\<lambda>candidate.
          if \<not> truthy candidate then Inr PNone
          else
            then_do (py_get candidate ''content'' PNone) (\<lambda>content.
            if \<not> truthy content then Inr PNone
            else
              then_do (py_getitem candidate (Key ''content'')) (\<lambda>content2.
              then_do (py_get content2 ''parts'' PNone) (\<lambda>parts.
              if \<not> truthy parts then Inr PNone
              else
                then_do (py_getitem candidate (Key ''content'')) (\<lambda>c.
                then_do (py_getitem c (Key ''parts'')) (\<lambda>ps.
                then_do (py_getitem ps (Idx 0)) (\<lambda>part.
                then_do (py_getitem part (Key ''text'')) (\<lambda>json_string.
                json_loads e json_string))))))))))"

function main_retry_loop ::
  "env \<Rightarrow> py_val \<Rightarrow> int \<Rightarrow> int \<Rightarrow> event list \<Rightarrow> py_val result \<times> event list" where
  "main_retry_loop e payload max_retries attempt tr =
     (if attempt < max_retries then
        (let tr1 = tr @ [Post (API_URL e) payload] in
         case upstream e tr1 of
           ConnectionFailed \<Rightarrow> (Inr PNone, tr1)
         | Responded response \<Rightarrow>
             (case main_try_body e response of
                Inr v \<Rightarrow> (Inr v, tr1)
              | Inl HTTPError \<Rightarrow>
                  if status_code response \<in> set [429, 500, 503] \<and> attempt < max_retries - 1
                  then main_retry_loop e payload max_retries (attempt + 1)
                         (tr1 @ [Sleep (2 ^ nat attempt)])
                  else (Inr PNone, tr1)
              | Inl RequestException \<Rightarrow> (Inr PNone, tr1)
              | Inl JSONDecodeError \<Rightarrow> (Inr PNone, tr1)
              | Inl ex \<Rightarrow> (Inl ex, tr1)))
      else (Inr PNone, tr))"
  by pat_completeness auto
termination
  by (relation "measure (\<lambda>(e, payload, max_retries, attempt, tr). nat (max_retries - attempt))")
     auto

declare main_retry_loop.simps [simp del]

definition main_process_image_to_json ::
  "env \<Rightarrow> string \<Rightarrow> string \<Rightarrow> string \<Rightarrow> py_val \<Rightarrow> int \<Rightarrow> event list
     \<Rightarrow> py_val result \<times> event list" where
  "main_process_image_to_json e image_base64 mime_type prompt response_schema max_retries tr =
     (if API_KEY e = [] then (Inr PNone, tr)
      else
        main_retry_loop e (build_payload image_base64 mime_type prompt response_schema)
          max_retries 0 tr)"

section \<open>api.py\<close>

definition ID_CARD_SCHEMA :: py_val where
  "ID_CARD_SCHEMA =
     PDict [
       (''type'', PStr ''OBJECT''),
       (''properties'', PDict [
          (''Name'', PDict [(''type'', PStr ''STRING''),
             (''description'', PStr ''The full name of the person.'')]),
          (''IDNumber'', PDict [(''type'', PStr ''STRING''),
             (''description'', PStr ''The national ID or driver's license number.'')]),
          (''DateOfBirth'', PDict [(''type'', PStr ''STRING''),
             (''description'', PStr
                ''The date of birth, standardized to YYYY-MM-DD format if possible.'')]),
          (''IDExpiryDate'', PDict [(''type'', PStr ''STRING''),
             (''description'', PStr (
                ''The ID card expiration date, standardized to YYYY-MM-DD format if present. '' @
                ''Use an empty string if not found.''))]),
          (''PassportNumber'', PDict [(''type'', PStr ''STRING''),
             (''description'', PStr
                ''The passport number. Use an empty string if not present.'')]),
          (''PassportExpiryDate'', PDict [(''type'', PStr ''STRING''),
             (''description'', PStr (
                ''The passport expiration date, standardized to YYYY-MM-DD format if present. '' @
                ''Use an empty string if not found.''))]),
          (''Occupation'', PDict [(''type'', PStr ''STRING''),
             (''description'', PStr (
                ''The occupation or job title of the person, if listed on the ID. '' @
                ''Use an empty string if not found.''))])]),
       (''required'', PList [PStr ''Name'', PStr ''IDNumber'', PStr ''DateOfBirth''])]"

definition ANALYSIS_PROMPT :: string where
  "ANALYSIS_PROMPT =
     ''Analyze the identification document in this image. Extract the Name, ID Number, '' @
     ''and Date of Birth. Also find and include the ID Expiry Date, Passport Number, '' @
     ''Passport Expiry Date, and Occupation if they are present on the document. '' @
     ''If a field is not present, return an empty string for that field.''"

text \<open>
  The uploaded file: what \<^verbatim>\<open>await file.read()\<close> gives (\<open>None\<close> when it raises) and the
  declared content type (\<open>None\<close> when the upload has none).
\<close>

record upload_file =
  file_read :: "8 word list option"
  content_type :: "string option"

text \<open>
  How a call of the endpoint ends: the handler returns a value, which the framework sends as
  the body of a 200 response; it raises HTTPException with a status and a detail; or an
  exception escapes it, which the framework answers with 500.
\<close>

datatype endpoint_result =
    Return py_val
  | HTTPException int py_val
  | Uncaught py_exn

fun http_status :: "endpoint_result \<Rightarrow> int" where
  "http_status (Return v) = 200"
| "http_status (HTTPException code detail) = code"
| "http_status (Uncaught ex) = 500"

definition startswith :: "string \<Rightarrow> string \<Rightarrow> bool" where
  "startswith s p = (take (length p) s = p)"

definition isinstance_dict :: "py_val \<Rightarrow> bool" where
  "isinstance_dict v = (case v of PDict d \<Rightarrow> True | _ \<Rightarrow> False)"

definition extract_id_data ::
  "env \<Rightarrow> upload_file \<Rightarrow> event list \<Rightarrow> endpoint_result \<times> event list" where
  "extract_id_data e file tr =
     (case file_read file of
        None \<Rightarrow> (HTTPException 500 (PStr ''Could not read file content.''), tr)
      | Some contents \<Rightarrow>
          (case content_type file of
             None \<Rightarrow>
               (HTTPException 400
                  (PStr (''Invalid file type: None. Only image files are supported.'')), tr)
           | Some mime_type \<Rightarrow>
               if mime_type = [] \<or> \<not> startswith mime_type ''image/'' then
                 (HTTPException 400
                    (PStr (''Invalid file type: '' @ mime_type @
                           ''. Only image files are supported.'')), tr)
               else
                 (let base64_data = bytes_to_base64 contents in
                  if base64_data = [] then
                    (HTTPException 500
                       (PStr ''Failed to encode image data for API submission.''), tr)
                  else
                    (case process_image_to_json e base64_data mime_type ANALYSIS_PROMPT
                            ID_CARD_SCHEMA 5 tr of
                       (Inl ex, tr') \<Rightarrow> (Uncaught ex, tr')
                     | (Inr structured_result, tr') \<Rightarrow>
                         (case (if isinstance_dict structured_result
                                then py_get structured_result ''error'' PNone
                                else Inr (PBool False)) of
                            Inl ex \<Rightarrow> (Uncaught ex, tr')
                          | Inr is_error \<Rightarrow>
                              if truthy is_error then
                                (case py_get structured_result ''error''
                                        (PStr ''Authentication failed or API key missing.'') of
                                   Inl ex \<Rightarrow> (Uncaught ex, tr')
                                 | Inr error_message \<Rightarrow>
                                     (HTTPException 401 error_message, tr'))
                              else if truthy structured_result then
                                (Return structured_result, tr')
                              else
                                (HTTPException 503 (PStr (
                                   ''Gemini API call failed or returned an unstructured '' @
                                   ''response after multiple retries.'')), tr'))))))"

section \<open>Observations on a run\<close>

text \<open>The number of requests posted in a trace: the attempts made.\<close>

fun attempts :: "event list \<Rightarrow> nat" where
  "attempts [] = 0"
| "attempts (Post u p # tr) = Suc (attempts tr)"
| "attempts (Sleep d # tr) = attempts tr"

text \<open>All the sleeps of a trace, in order.\<close>

fun delays :: "event list \<Rightarrow> int list" where
  "delays [] = []"
| "delays (Post u p # tr) = delays tr"
| "delays (Sleep d # tr) = d # delays tr"

text \<open>
  \<open>delay_before k tr\<close>: the sleeps that come directly before attempt \<open>k\<close> (counted from 0),
  after the attempt before it.
\<close>

fun leading_sleeps :: "event list \<Rightarrow> int list" where
  "leading_sleeps [] = []"
| "leading_sleeps (Sleep d # tr) = d # leading_sleeps tr"
| "leading_sleeps (Post u p # tr) = []"

fun after_first_post :: "event list \<Rightarrow> event list" where
  "after_first_post [] = []"
| "after_first_post (Sleep d # tr) = after_first_post tr"
| "after_first_post (Post u p # tr) = tr"

fun delay_before :: "nat \<Rightarrow> event list \<Rightarrow> int list" where
  "delay_before 0 tr = leading_sleeps tr"
| "delay_before (Suc k) tr = delay_before k (after_first_post tr)"

text \<open>
  \<open>upto_attempt k tr\<close>: the trace up to and including the request of attempt \<open>k\<close>, which is
  the history the upstream service answers that request on.
\<close>

fun upto_attempt :: "nat \<Rightarrow> event list \<Rightarrow> event list" where
  "upto_attempt k [] = []"
| "upto_attempt k (Sleep d # tr) = Sleep d # upto_attempt k tr"
| "upto_attempt 0 (Post u p # tr) = [Post u p]"
| "upto_attempt (Suc k) (Post u p # tr) = Post u p # upto_attempt k tr"

section \<open>Kinds of upstream answers\<close>

text \<open>An answer with one of the three statuses the retry policy names.\<close>

definition retryable :: "post_outcome \<Rightarrow> bool" where
  "retryable out =
     (case out of Responded r \<Rightarrow> status_code r \<in> {429, 500, 503} | ConnectionFailed \<Rightarrow> False)"

text \<open>An answer with an HTTP error status other than those three.\<close>

definition other_http_error :: "post_outcome \<Rightarrow> bool" where
  "other_http_error out =
     (case out of
        Responded r \<Rightarrow> raises_for_status r \<and> status_code r \<notin> {429, 500, 503}
      | ConnectionFailed \<Rightarrow> False)"

text \<open>
  The text of the first part of the content of the first candidate of a response body,
  \<^verbatim>\<open>candidates[0].content.parts[0].text\<close>, when the body has that shape and the text is a
  string.
\<close>

definition candidate_text :: "py_val \<Rightarrow> string option" where
  "candidate_text body =
     (case body of
        PDict d \<Rightarrow>
          (case map_of d ''candidates'' of
             Some (PList (PDict c # cs)) \<Rightarrow>
               (case map_of c ''content'' of
                  Some (PDict ct) \<Rightarrow>
                    (case map_of ct ''parts'' of
                       Some (PList (PDict part # ps)) \<Rightarrow>
                         (case map_of part ''text'' of Some (PStr s) \<Rightarrow> Some s | _ \<Rightarrow> None)
                     | _ \<Rightarrow> None)
                | _ \<Rightarrow> None)
           | _ \<Rightarrow> None)
      | _ \<Rightarrow> None)"

text \<open>A success answer whose first candidate carries the text \<open>s\<close>.\<close>

definition answers_text :: "post_outcome \<Rightarrow> string \<Rightarrow> bool" where
  "answers_text out s =
     (case out of
        Responded r \<Rightarrow>
          \<not> raises_for_status r \<and>
          (case json_body r of Inl ex \<Rightarrow> False | Inr body \<Rightarrow> candidate_text body = Some s)
      | ConnectionFailed \<Rightarrow> False)"



text \<open>
  An answer whose first candidate carries a text that the JSON parser rejects with
  JSONDecodeError.
\<close>

definition unparsable_text :: "env \<Rightarrow> post_outcome \<Rightarrow> bool" where
  "unparsable_text e out =
     (case out of
        Responded r \<Rightarrow>
          \<not> raises_for_status r \<and>
          (case json_body r of
             Inl ex \<Rightarrow> False
           | Inr body \<Rightarrow>
               (case candidate_text body of
                  None \<Rightarrow> False
                | Some s \<Rightarrow> loads e s = Inl JSONDecodeError))
      | ConnectionFailed \<Rightarrow> False)"

text \<open>
  The answers that the handlers turn into the return value \<^verbatim>\<open>None\<close> at once: another HTTP
  error status, a network-level failure, a text that the parser rejects with JSONDecodeError.
\<close>

definition fatal_answer :: "env \<Rightarrow> post_outcome \<Rightarrow> bool" where
  "fatal_answer e out =
     (out = ConnectionFailed \<or> other_http_error out \<or> unparsable_text e out)"

section \<open>The shape of a run of the retry loop\<close>

text \<open>
  \<open>backoff_trace u p a m\<close>: the requests of attempts \<open>a\<close> to \<open>a + m\<close>, each but the last
  followed by its sleep of \<open>2 ^ attempt\<close>.
\<close>

fun backoff_trace :: "string \<Rightarrow> py_val \<Rightarrow> nat \<Rightarrow> nat \<Rightarrow> event list" where
  "backoff_trace u p a 0 = [Post u p]"
| "backoff_trace u p a (Suc m) = Post u p # Sleep (2 ^ a) # backoff_trace u p (Suc a) m"

text \<open>
  What the handlers make of the \<^verbatim>\<open>try\<close> block of an attempt that is not retried: the three
  kinds they catch become the return value \<^verbatim>\<open>None\<close>, any other exception goes on.
\<close>

definition handled :: "py_val result \<Rightarrow> py_val result" where
  "handled r =
     (case r of
        Inr v \<Rightarrow> Inr v
      | Inl HTTPError \<Rightarrow> Inr PNone
      | Inl RequestException \<Rightarrow> Inr PNone
      | Inl JSONDecodeError \<Rightarrow> Inr PNone
      | Inl ex \<Rightarrow> Inl ex)"

section \<open>Sample environments and uploads\<close>

text \<open>
  Concrete inputs for the examples below. Each environment has the upstream service give one
  fixed answer (or a fixed sequence), and a parser that knows the one text the example uses;
  what it gives on that text is what \<^verbatim>\<open>json.loads\<close> gives or raises there.
\<close>

definition always :: "post_outcome \<Rightarrow> event list \<Rightarrow> post_outcome" where
  "always out h = out"

definition status_only :: "int \<Rightarrow> post_outcome" where
  "status_only st = Responded \<lparr>status_code = st, json_body = Inl RequestException\<rparr>"

definition success_body :: "py_val \<Rightarrow> post_outcome" where
  "success_body body = Responded \<lparr>status_code = 200, json_body = Inr body\<rparr>"

definition success_text :: "string \<Rightarrow> post_outcome" where
  "success_text s =
     success_body (PDict [(''candidates'', PList [
        PDict [(''content'',
           PDict [(''parts'', PList [PDict [(''text'', PStr s)]]), (''role'', PStr ''model'')])]])])"

definition no_parser :: "string \<Rightarrow> py_val result" where
  "no_parser s = Inl JSONDecodeError"

definition parses_to :: "string \<Rightarrow> py_val \<Rightarrow> string \<Rightarrow> py_val result" where
  "parses_to text v s = (if s = text then Inr v else Inl JSONDecodeError)"

definition raises_on :: "string \<Rightarrow> py_exn \<Rightarrow> string \<Rightarrow> py_val result" where
  "raises_on text ex s = (if s = text then Inl ex else Inl JSONDecodeError)"

definition test_env :: "(event list \<Rightarrow> post_outcome) \<Rightarrow> (string \<Rightarrow> py_val result) \<Rightarrow> env" where
  "test_env up ld = \<lparr>GEMINI_API_KEY = Some ''test-key'', upstream = up, loads = ld\<rparr>"

definition env_no_key :: env where
  "env_no_key = \<lparr>GEMINI_API_KEY = None, upstream = always ConnectionFailed, loads = no_parser\<rparr>"

definition env_empty_key :: env where
  "env_empty_key = \<lparr>GEMINI_API_KEY = Some [], upstream = always ConnectionFailed, loads = no_parser\<rparr>"

definition env_busy :: env where
  "env_busy = test_env (always (status_only 503)) no_parser"

definition env_not_found :: env where
  "env_not_found = test_env (always (status_only 404)) no_parser"

definition env_offline :: env where
  "env_offline = test_env (always ConnectionFailed) no_parser"

definition env_bad_text :: env where
  "env_bad_text = test_env (always (success_text ''not json'')) no_parser"

definition busy_once :: "event list \<Rightarrow> post_outcome" where
  "busy_once h = (if attempts h \<le> 1 then status_only 503 else status_only 404)"

definition env_busy_once :: env where
  "env_busy_once = test_env busy_once no_parser"

definition env_empty_candidates :: env where
  "env_empty_candidates =
     test_env (always (success_body (PDict [(''candidates'', PList [])]))) no_parser"


definition jane_text :: string where
  \<open>jane_text =
     ''{"Name":"Jane Doe","IDNumber":"X123","DateOfBirth":"1990-01-01","IDExpiryDate":"",'' @
     ''"PassportNumber":"","PassportExpiryDate":"","Occupation":""}''\<close>

definition jane_doe :: py_val where
  "jane_doe =
     PDict [(''Name'', PStr ''Jane Doe''), (''IDNumber'', PStr ''X123''),
            (''DateOfBirth'', PStr ''1990-01-01''), (''IDExpiryDate'', PStr []),
            (''PassportNumber'', PStr []), (''PassportExpiryDate'', PStr []),
            (''Occupation'', PStr [])]"

definition env_jane :: env where
  "env_jane = test_env (always (success_text jane_text)) (parses_to jane_text jane_doe)"

definition error_text :: string where
  \<open>error_text = ''{"error": "denied"}''\<close>

definition error_object :: py_val where
  "error_object = PDict [(''error'', PStr ''denied'')]"

definition env_error_object :: env where
  "env_error_object = test_env (always (success_text error_text)) (parses_to error_text error_object)"

definition env_empty_object :: env where
  "env_empty_object = test_env (always (success_text ''{}'')) (parses_to ''{}'' (PDict []))"

text \<open>
  Two texts on which the parser raises something else than JSONDecodeError: 1500 opening
  brackets (RecursionError) and an integer of 4301 digits (ValueError).
\<close>

definition deep_text :: string where
  "deep_text = replicate 1500 (CHR ''['')"

definition env_deep_text :: env where
  "env_deep_text = test_env (always (success_text deep_text)) (raises_on deep_text RecursionError)"

definition long_int_text :: string where
  "long_int_text = replicate 4301 (CHR ''1'')"

definition env_long_int :: env where
  "env_long_int = test_env (always (success_text long_int_text)) (raises_on long_int_text ValueError)"

text \<open>A service that answers 503 once and then sends the Jane Doe text.\<close>

definition busy_then_jane :: "event list \<Rightarrow> post_outcome" where
  "busy_then_jane h = (if attempts h \<le> 1 then status_only 503 else success_text jane_text)"

definition env_busy_then_jane :: env where
  "env_busy_then_jane = test_env busy_then_jane (parses_to jane_text jane_doe)"

definition env_list :: env where
  "env_list = test_env (always (success_text ''[1]'')) (parses_to ''[1]'' (PList [PInt 1]))"

definition jpeg_bytes :: "8 word list" where
  "jpeg_bytes = [0xFF, 0xD8, 0xFF]"

definition jpeg_file :: upload_file where
  "jpeg_file = \<lparr>file_read = Some jpeg_bytes, content_type = Some ''image/jpeg''\<rparr>"

definition empty_file :: upload_file where
  "empty_file = \<lparr>file_read = Some [], content_type = Some ''image/png''\<rparr>"

text \<open>The request that the endpoint makes for an upload, and the missing-key value.\<close>

definition endpoint_payload :: "8 word list \<Rightarrow> string \<Rightarrow> py_val" where
  "endpoint_payload contents mime_type =
     build_payload (bytes_to_base64 contents) mime_type ANALYSIS_PROMPT ID_CARD_SCHEMA"

definition missing_key_value :: py_val where
  "missing_key_value = PTuple [PDict [(''error'', PStr ''API Key is missing'')], PInt 401]"

section \<open>The retry loop, step by step\<close>

lemma retryable_raises:
  "retryable (Responded r) \<Longrightarrow> raises_for_status r"
  by (auto simp: retryable_def raises_for_status_def)

lemma try_body_retryable:
  "retryable (Responded r) \<Longrightarrow> try_body e r = Inl HTTPError"
  by (simp add: try_body_def retryable_raises)

lemma retry_loop_exhausted:
  "\<not> attempt < max_retries \<Longrightarrow> retry_loop e p max_retries attempt tr = (Inr PNone, tr)"
  by (simp add: retry_loop.simps)

lemma retry_loop_retry:
  assumes "attempt < max_retries - 1"
    and "retryable (upstream e (tr @ [Post (API_URL e) p]))"
  shows "retry_loop e p max_retries attempt tr =
         retry_loop e p max_retries (attempt + 1)
           (tr @ [Post (API_URL e) p, Sleep (2 ^ nat attempt)])"
proof -
  from assms(2) obtain r where r: "upstream e (tr @ [Post (API_URL e) p]) = Responded r"
    and st: "status_code r \<in> {429, 500, 503}"
    by (auto simp: retryable_def split: post_outcome.splits)
  have tb: "try_body e r = Inl HTTPError"
    using assms(2) r by (simp add: try_body_retryable)
  show ?thesis
    using assms(1) r st tb
    by (subst retry_loop.simps) (auto simp: Let_def)
qed

lemma retry_loop_last:
  assumes "attempt < max_retries" and "\<not> attempt < max_retries - 1"
    and "retryable (upstream e (tr @ [Post (API_URL e) p]))"
  shows "retry_loop e p max_retries attempt tr = (Inr PNone, tr @ [Post (API_URL e) p])"
proof -
  from assms(3) obtain r where r: "upstream e (tr @ [Post (API_URL e) p]) = Responded r"
    by (auto simp: retryable_def split: post_outcome.splits)
  have tb: "try_body e r = Inl HTTPError"
    using assms(3) r by (simp add: try_body_retryable)
  show ?thesis
    using assms(1,2) r tb
    by (subst retry_loop.simps) (auto simp: Let_def)
qed

lemma retry_loop_stop:
  assumes "attempt < max_retries"
    and "\<not> (retryable (upstream e (tr @ [Post (API_URL e) p])) \<and> attempt < max_retries - 1)"
  shows "retry_loop e p max_retries attempt tr =
         ((case upstream e (tr @ [Post (API_URL e) p]) of
             ConnectionFailed \<Rightarrow> Inr PNone
           | Responded r \<Rightarrow> handled (try_body e r)), tr @ [Post (API_URL e) p])"
  using assms
  by (subst retry_loop.simps)
     (auto simp: Let_def retryable_def handled_def split: post_outcome.splits sum.splits py_exn.splits)

lemma retry_loop_all_retryable:
  assumes all: "\<forall>h. retryable (upstream e h)"
  shows "0 \<le> a \<Longrightarrow> a < n \<Longrightarrow>
   retry_loop e p n a tr = (Inr PNone, tr @ backoff_trace (API_URL e) p (nat a) (nat (n - 1 - a)))"
proof (induction "nat (n - 1 - a)" arbitrary: a tr)
  case 0
  then have "\<not> a < n - 1" by linarith
  with 0 all show ?case by (simp add: retry_loop_last)
next
  case (Suc k)
  then have lt: "a < n - 1" by linarith
  have eq: "retry_loop e p n a tr = retry_loop e p n (a + 1) (tr @ [Post (API_URL e) p, Sleep (2 ^ nat a)])"
    using lt all by (simp add: retry_loop_retry)
  have k: "k = nat (n - 1 - (a + 1))" using Suc.hyps(2) by linarith
  have "retry_loop e p n (a + 1) (tr @ [Post (API_URL e) p, Sleep (2 ^ nat a)]) =
      (Inr PNone, (tr @ [Post (API_URL e) p, Sleep (2 ^ nat a)]) @ backoff_trace (API_URL e) p (nat (a + 1)) (nat (n - 1 - (a + 1))))"
    using Suc.hyps(1)[OF k] Suc.prems lt by simp
  moreover have "nat (a + 1) = Suc (nat a)" using Suc.prems by linarith
  moreover have "nat (n - 1 - a) = Suc (nat (n - 1 - (a + 1)))" using lt by linarith
  ultimately show ?case using eq by simp
qed

lemma attempts_backoff_trace: "attempts (backoff_trace u p a m) = Suc m"
  by (induction m arbitrary: a) auto

lemma delays_backoff_trace: "delays (backoff_trace u p a m) = map (\<lambda>k. 2 ^ k) [a..<a + m]"
  by (induction m arbitrary: a) (auto simp: upt_rec)

lemma leading_sleeps_backoff_trace: "leading_sleeps (backoff_trace u p a m) = []"
  by (cases m) auto

lemma delay_before_backoff_trace:
  "k < m \<Longrightarrow> delay_before (Suc k) (backoff_trace u p a m) = [2 ^ (a + k)]"
proof (induction k arbitrary: a m)
  case 0
  then obtain m' where "m = Suc m'" by (cases m) auto
  then show ?case by (simp add: leading_sleeps_backoff_trace)
next
  case (Suc k)
  then obtain m' where m: "m = Suc m'" and "k < m'" by (cases m) auto
  then have "delay_before (Suc k) (backoff_trace u p (Suc a) m') = [2 ^ (Suc a + k)]"
    using Suc.IH by blast
  then show ?case using m by simp
qed

lemma upto_attempt_backoff_trace:
  "k \<le> m \<Longrightarrow> upto_attempt k (backoff_trace u p a m) = backoff_trace u p a k"
proof (induction k arbitrary: a m)
  case 0
  then show ?case by (cases m) auto
next
  case (Suc k)
  then obtain m' where m: "m = Suc m'" and "k \<le> m'" by (cases m) auto
  then show ?case using Suc.IH by simp
qed


lemma retry_loop_run:
  assumes "0 \<le> a" and "a < n"
  shows "\<exists>m. nat a + m < nat n
    \<and> (\<forall>j<m. retryable (upstream e (tr @ backoff_trace (API_URL e) p (nat a) j)))
    \<and> \<not> (retryable (upstream e (tr @ backoff_trace (API_URL e) p (nat a) m)) \<and> Suc (nat a + m) < nat n)
    \<and> retry_loop e p n a tr =
        ((case upstream e (tr @ backoff_trace (API_URL e) p (nat a) m) of
            ConnectionFailed \<Rightarrow> Inr PNone
          | Responded r \<Rightarrow> handled (try_body e r)),
         tr @ backoff_trace (API_URL e) p (nat a) m)"
  using assms
proof (induction "nat (n - a)" arbitrary: a tr)
  case 0
  then show ?case by simp
next
  case (Suc k)
  let ?u = "API_URL e"
  show ?case
  proof (cases "retryable (upstream e (tr @ [Post ?u p])) \<and> a < n - 1")
    case True
    let ?tr = "tr @ [Post ?u p, Sleep (2 ^ nat a)]"
    have eq: "retry_loop e p n a tr = retry_loop e p n (a + 1) ?tr"
      using True by (simp add: retry_loop_retry)
    have k: "k = nat (n - (a + 1))" using Suc.hyps(2) by linarith
    have a1: "0 \<le> a + 1" "a + 1 < n" using Suc.prems True by auto
    have na: "nat (a + 1) = Suc (nat a)" using Suc.prems by linarith
    from Suc.hyps(1)[OF k a1, of ?tr] obtain m where
      m1: "nat (a + 1) + m < nat n"
      and m2: "\<forall>j<m. retryable (upstream e (?tr @ backoff_trace ?u p (nat (a + 1)) j))"
      and m3: "\<not> (retryable (upstream e (?tr @ backoff_trace ?u p (nat (a + 1)) m)) \<and> Suc (nat (a + 1) + m) < nat n)"
      and m4: "retry_loop e p n (a + 1) ?tr =
        ((case upstream e (?tr @ backoff_trace ?u p (nat (a + 1)) m) of
            ConnectionFailed \<Rightarrow> Inr PNone
          | Responded r \<Rightarrow> handled (try_body e r)),
         ?tr @ backoff_trace ?u p (nat (a + 1)) m)"
      by blast
    have sh: "\<And>j. ?tr @ backoff_trace ?u p (nat (a + 1)) j = tr @ backoff_trace ?u p (nat a) (Suc j)"
      by (simp add: na)
    have c1: "nat a + Suc m < nat n" using m1 na by simp
    have c2: "\<forall>j<Suc m. retryable (upstream e (tr @ backoff_trace ?u p (nat a) j))"
    proof (intro allI impI)
      fix j assume "j < Suc m"
      show "retryable (upstream e (tr @ backoff_trace ?u p (nat a) j))"
      proof (cases j)
        case 0
        then show ?thesis using True by simp
      next
        case (Suc j')
        then have "j' < m" using \<open>j < Suc m\<close> by simp
        then show ?thesis using m2 sh Suc by metis
      qed
    qed
    have c3: "\<not> (retryable (upstream e (tr @ backoff_trace ?u p (nat a) (Suc m))) \<and> Suc (nat a + Suc m) < nat n)"
      using m3 sh na by (metis add_Suc add_Suc_right)
    have c4: "retry_loop e p n a tr =
        ((case upstream e (tr @ backoff_trace ?u p (nat a) (Suc m)) of
            ConnectionFailed \<Rightarrow> Inr PNone
          | Responded r \<Rightarrow> handled (try_body e r)),
         tr @ backoff_trace ?u p (nat a) (Suc m))"
      using eq m4 sh by metis
    show ?thesis using c1 c2 c3 c4 by blast
  next
    case False
    have c1: "nat a + 0 < nat n" using Suc.prems by linarith
    have c3: "\<not> (retryable (upstream e (tr @ backoff_trace ?u p (nat a) 0)) \<and> Suc (nat a + 0) < nat n)"
      using False Suc.prems by auto
    have c4: "retry_loop e p n a tr =
        ((case upstream e (tr @ backoff_trace ?u p (nat a) 0) of
            ConnectionFailed \<Rightarrow> Inr PNone
          | Responded r \<Rightarrow> handled (try_body e r)),
         tr @ backoff_trace ?u p (nat a) 0)"
      using False Suc.prems by (simp add: retry_loop_stop)
    show ?thesis using c1 c3 c4 by (intro exI[of _ 0]) simp
  qed
qed

lemma try_body_text:
  assumes "\<not> raises_for_status r" and "json_body r = Inr body" and "candidate_text body = Some s"
  shows "try_body e r = loads e s"
  using assms
  by (auto simp: try_body_def candidate_text_def then_do_def json_loads_def dict_get_def seq_index_def
           split: py_val.splits option.splits list.splits)


lemma final_retryable:
  "retryable out \<Longrightarrow>
   (case out of ConnectionFailed \<Rightarrow> Inr PNone | Responded r \<Rightarrow> handled (try_body e r)) = Inr PNone"
  by (cases out) (auto simp: try_body_retryable handled_def retryable_def)

lemma process_no_key:
  "API_KEY e = [] \<Longrightarrow>
   process_image_to_json e img mime prompt schema n tr = (Inr missing_key_value, tr)"
  by (simp add: process_image_to_json_def missing_key_value_def)

lemma process_no_attempts:
  "API_KEY e \<noteq> [] \<Longrightarrow> n \<le> 0 \<Longrightarrow>
   process_image_to_json e img mime prompt schema n tr = (Inr PNone, tr)"
  by (simp add: process_image_to_json_def retry_loop_exhausted)

lemma process_run:
  assumes "API_KEY e \<noteq> []" and "0 < n"
  shows "\<exists>m. m < nat n
    \<and> (\<forall>j<m. retryable (upstream e (backoff_trace (API_URL e) (build_payload img mime prompt schema) 0 j)))
    \<and> \<not> (retryable (upstream e (backoff_trace (API_URL e) (build_payload img mime prompt schema) 0 m))
          \<and> Suc m < nat n)
    \<and> process_image_to_json e img mime prompt schema n [] =
        ((case upstream e (backoff_trace (API_URL e) (build_payload img mime prompt schema) 0 m) of
            ConnectionFailed \<Rightarrow> Inr PNone
          | Responded r \<Rightarrow> handled (try_body e r)),
         backoff_trace (API_URL e) (build_payload img mime prompt schema) 0 m)"
  using retry_loop_run[of 0 n e "[]" "build_payload img mime prompt schema"] assms
  by (simp add: process_image_to_json_def)

section \<open>Claims about the retry loop\<close>

text \<open>
  Claim C4. With an API key configured, if every attempt the run makes is answered with status
  429, 500 or 503, then \<^verbatim>\<open>process_image_to_json\<close> makes exactly \<open>max_retries\<close> attempts
  (none when \<open>max_retries\<close> is not positive), sleeps 1, 2, 4, 8, ... between consecutive
  attempts and nowhere else, and returns \<^verbatim>\<open>None\<close>, its retries exhausted.
\<close>

theorem C4_retries_exhausted:
  assumes key: "API_KEY e \<noteq> []"
    and run: "process_image_to_json e img mime prompt schema n [] = (res, tr)"
    and every: "\<forall>k<attempts tr. retryable (upstream e (upto_attempt k tr))"
  shows "res = Inr PNone \<and> attempts tr = nat n
       \<and> delays tr = map (\<lambda>k. 2 ^ k) [0..<nat n - 1]
       \<and> delay_before 0 tr = []
       \<and> (\<forall>k. Suc k < nat n \<longrightarrow> delay_before (Suc k) tr = [2 ^ k])"
proof (cases "0 < n")
  case False
  then have "res = Inr PNone" "tr = []"
    using process_no_attempts[OF key, of n img mime prompt schema "[]"] run by auto
  then show ?thesis using False by simp
next
  case True
  let ?bt = "backoff_trace (API_URL e) (build_payload img mime prompt schema) 0"
  from process_run[OF key True, of img mime prompt schema] run
  obtain m where m: "m < nat n"
    and last: "\<not> (retryable (upstream e (?bt m)) \<and> Suc m < nat n)"
    and res: "res = (case upstream e (?bt m) of
            ConnectionFailed \<Rightarrow> Inr PNone | Responded r \<Rightarrow> handled (try_body e r))"
    and tr: "tr = ?bt m"
    by auto
  have "retryable (upstream e (upto_attempt m tr))"
    using every tr by (simp add: attempts_backoff_trace)
  then have rm: "retryable (upstream e (?bt m))"
    using tr by (simp add: upto_attempt_backoff_trace)
  then have sm: "Suc m = nat n" using last m by linarith
  have r1: "res = Inr PNone" using res rm by (simp add: final_retryable)
  have r2: "attempts tr = nat n" using tr sm by (simp add: attempts_backoff_trace)
  have mm: "m = nat n - 1" using sm by linarith
  have r3: "delays tr = map (\<lambda>k. 2 ^ k) [0..<nat n - 1]"
    using tr mm by (simp add: delays_backoff_trace)
  have r4: "delay_before 0 tr = []" using tr by (simp add: leading_sleeps_backoff_trace)
  have r5: "\<forall>k. Suc k < nat n \<longrightarrow> delay_before (Suc k) tr = [2 ^ k]"
  proof (intro allI impI)
    fix k assume "Suc k < nat n"
    then have "k < m" using sm by linarith
    from delay_before_backoff_trace[OF this] show "delay_before (Suc k) tr = [2 ^ k]"
      using tr by (simp del: delay_before.simps)
  qed
  show ?thesis using r1 r2 r3 r4 r5 by blast
qed

lemma API_KEY_test_env: "API_KEY (test_env up ld) = ''test-key''"
  by (simp add: API_KEY_def test_env_def)

lemma upstream_test_env: "upstream (test_env up ld) = up"
  by (simp add: test_env_def)

lemma loads_test_env: "loads (test_env up ld) = ld"
  by (simp add: test_env_def)

lemma retryable_503: "retryable (status_only 503)"
  by (simp add: retryable_def status_only_def)

lemma busy_run:
  "process_image_to_json env_busy img mime prompt schema 5 [] =
     (Inr PNone, backoff_trace (API_URL env_busy) (build_payload img mime prompt schema) 0 4)"
proof -
  have "\<forall>h. retryable (upstream env_busy h)"
    by (simp add: env_busy_def upstream_test_env always_def retryable_503)
  from retry_loop_all_retryable[OF this, of 0 5 "build_payload img mime prompt schema" "[]"]
  show ?thesis
    by (simp add: process_image_to_json_def env_busy_def API_KEY_test_env)
qed

lemma backoff_trace_4:
  "backoff_trace u p 0 4 =
     [Post u p, Sleep 1, Post u p, Sleep 2, Post u p, Sleep 4, Post u p, Sleep 8, Post u p]"
  by (simp add: numeral_eq_Suc)

text \<open>
  The default of five attempts against a service that always answers 503: five requests,
  and the sleeps 1, 2, 4, 8.
\<close>

theorem C4_witness:
  "API_KEY env_busy \<noteq> []
   \<and> process_image_to_json env_busy (bytes_to_base64 jpeg_bytes) ''image/jpeg'' ANALYSIS_PROMPT
       ID_CARD_SCHEMA 5 []
     = (Inr PNone, backoff_trace (API_URL env_busy) (endpoint_payload jpeg_bytes ''image/jpeg'') 0 4)
   \<and> attempts (backoff_trace (API_URL env_busy) (endpoint_payload jpeg_bytes ''image/jpeg'') 0 4) = 5
   \<and> delays (backoff_trace (API_URL env_busy) (endpoint_payload jpeg_bytes ''image/jpeg'') 0 4)
       = [1, 2, 4, 8]
   \<and> delay_before (Suc 2)
         (backoff_trace (API_URL env_busy) (endpoint_payload jpeg_bytes ''image/jpeg'') 0 4)
       = [4]"
proof -
  let ?tr = "backoff_trace (API_URL env_busy) (endpoint_payload jpeg_bytes ''image/jpeg'') 0 4"
  have key: "API_KEY env_busy \<noteq> []" by (simp add: env_busy_def API_KEY_test_env)
  have run: "process_image_to_json env_busy (bytes_to_base64 jpeg_bytes) ''image/jpeg''
      ANALYSIS_PROMPT ID_CARD_SCHEMA 5 [] = (Inr PNone, ?tr)"
    by (simp add: busy_run endpoint_payload_def)
  have every: "\<forall>k<attempts ?tr. retryable (upstream env_busy (upto_attempt k ?tr))"
    by (simp add: env_busy_def upstream_test_env always_def retryable_503)
  note c = C4_retries_exhausted[OF key run every]
  from c have "attempts ?tr = nat 5" by blast
  then have a: "attempts ?tr = 5" by simp
  from c have "delays ?tr = map (\<lambda>k. 2 ^ k) [0..<nat 5 - 1]" by blast
  then have d: "delays ?tr = [1, 2, 4, 8]" by (simp add: upt_rec numeral_eq_Suc)
  from c have q: "\<forall>k. Suc k < nat 5 \<longrightarrow> delay_before (Suc k) ?tr = [2 ^ k]" by blast
  have lt: "Suc 2 < nat (5::int)" by simp
  have p4: "[(2::int) ^ 2] = [4]" by simp
  from q lt have "delay_before (Suc 2) ?tr = [2 ^ 2]" by blast
  with p4 have b: "delay_before (Suc 2) ?tr = [4]" by (simp only:)
  from key run a d b show ?thesis by blast
qed

lemma fatal_not_retryable: "fatal_answer e out \<Longrightarrow> \<not> retryable out"
  by (cases out)
     (auto simp: fatal_answer_def other_http_error_def unparsable_text_def retryable_def
        raises_for_status_def)

lemma final_fatal:
  "fatal_answer e out \<Longrightarrow>
   (case out of ConnectionFailed \<Rightarrow> Inr PNone | Responded r \<Rightarrow> handled (try_body e r)) = Inr PNone"
proof (cases out)
  case ConnectionFailed
  then show ?thesis by simp
next
  case (Responded r)
  assume f: "fatal_answer e out"
  show ?thesis
  proof (cases "raises_for_status r")
    case True
    then show ?thesis using Responded by (simp add: try_body_def handled_def)
  next
    case False
    with f Responded obtain body s where "json_body r = Inr body" "candidate_text body = Some s"
      "loads e s = Inl JSONDecodeError"
      by (auto simp: fatal_answer_def other_http_error_def unparsable_text_def
          split: option.splits sum.splits)
    with False show ?thesis using Responded by (simp add: try_body_text handled_def)
  qed
qed

lemma process_trace_cases:
  assumes run: "process_image_to_json e img mime prompt schema n [] = (res, tr)"
  shows "tr = [] \<or>
    (API_KEY e \<noteq> [] \<and> 0 < n \<and> (\<exists>m. m < nat n
      \<and> (\<forall>j<m. retryable (upstream e (backoff_trace (API_URL e) (build_payload img mime prompt schema) 0 j)))
      \<and> \<not> (retryable (upstream e (backoff_trace (API_URL e) (build_payload img mime prompt schema) 0 m))
            \<and> Suc m < nat n)
      \<and> res = (case upstream e (backoff_trace (API_URL e) (build_payload img mime prompt schema) 0 m) of
            ConnectionFailed \<Rightarrow> Inr PNone
          | Responded r \<Rightarrow> handled (try_body e r))
      \<and> tr = backoff_trace (API_URL e) (build_payload img mime prompt schema) 0 m))"
proof (cases "API_KEY e = []")
  case True
  then show ?thesis using run by (simp add: process_no_key)
next
  case key: False
  show ?thesis
  proof (cases "0 < n")
    case False
    then show ?thesis using run key by (simp add: process_no_attempts)
  next
    case True
    from process_run[OF key True, of img mime prompt schema] run
    show ?thesis using key True by auto
  qed
qed

text \<open>
  Claim C5, as amended. In every run of \<^verbatim>\<open>process_image_to_json\<close> no sleep comes before the
  first attempt, and the sleep after attempt \<open>k\<close> (counted from 0), that is before attempt
  \<open>k + 1\<close>, is \<open>2 ^ k\<close>. The sleeps of a run are therefore 1, 2, 4, ... up to
  \<open>2 ^ (attempts - 2)\<close>, and there are at most \<open>max_retries\<close> attempts: with the default of
  five, the sleeps are at most 1, 2, 4, 8.
\<close>

theorem C5_delay_after_attempt:
  assumes run: "process_image_to_json e img mime prompt schema n [] = (res, tr)"
  shows "delay_before 0 tr = []
       \<and> (\<forall>k. Suc k < attempts tr \<longrightarrow> delay_before (Suc k) tr = [2 ^ k])
       \<and> delays tr = map (\<lambda>k. 2 ^ k) [0..<attempts tr - 1]
       \<and> int (attempts tr) \<le> max n 0"
proof -
  from process_trace_cases[OF run] show ?thesis
  proof
    assume "tr = []"
    then show ?thesis by simp
  next
    assume "API_KEY e \<noteq> [] \<and> 0 < n \<and> (\<exists>m. m < nat n
      \<and> (\<forall>j<m. retryable (upstream e (backoff_trace (API_URL e) (build_payload img mime prompt schema) 0 j)))
      \<and> \<not> (retryable (upstream e (backoff_trace (API_URL e) (build_payload img mime prompt schema) 0 m))
            \<and> Suc m < nat n)
      \<and> res = (case upstream e (backoff_trace (API_URL e) (build_payload img mime prompt schema) 0 m) of
            ConnectionFailed \<Rightarrow> Inr PNone
          | Responded r \<Rightarrow> handled (try_body e r))
      \<and> tr = backoff_trace (API_URL e) (build_payload img mime prompt schema) 0 m)"
    then obtain m where m: "m < nat n"
      and tr: "tr = backoff_trace (API_URL e) (build_payload img mime prompt schema) 0 m"
      by blast
    have r1: "delay_before 0 tr = []" using tr by (simp add: leading_sleeps_backoff_trace)
    have r2: "\<forall>k. Suc k < attempts tr \<longrightarrow> delay_before (Suc k) tr = [2 ^ k]"
    proof (intro allI impI)
      fix k assume "Suc k < attempts tr"
      then have "k < m" using tr by (simp add: attempts_backoff_trace)
      from delay_before_backoff_trace[OF this] show "delay_before (Suc k) tr = [2 ^ k]"
        using tr by (simp del: delay_before.simps)
    qed
    have r3: "delays tr = map (\<lambda>k. 2 ^ k) [0..<attempts tr - 1]"
      using tr by (simp add: delays_backoff_trace attempts_backoff_trace)
    have r4: "int (attempts tr) \<le> max n 0"
      using tr m by (simp add: attempts_backoff_trace)
    show ?thesis using r1 r2 r3 r4 by blast
  qed
qed

text \<open>
  The retry policy. With an API key configured, an attempt is followed by another one only if
  it was answered with status 429, 500 or 503 and attempts remained, and then after the
  backoff sleep. An answer with another HTTP error status, a network-level failure, or a text
  that the parser rejects with JSONDecodeError ends the run at that attempt with the return
  value \<^verbatim>\<open>None\<close>; when it is the answer to the first attempt, the run is that one request
  and nothing else.
\<close>

lemma retry_policy:
  assumes key: "API_KEY e \<noteq> []"
    and run: "process_image_to_json e img mime prompt schema n [] = (res, tr)"
  shows "(\<forall>k. Suc k < attempts tr \<longrightarrow>
            retryable (upstream e (upto_attempt k tr)) \<and> int (Suc k) < n
            \<and> delay_before (Suc k) tr = [2 ^ k])
       \<and> (\<forall>k<attempts tr. fatal_answer e (upstream e (upto_attempt k tr)) \<longrightarrow>
            attempts tr = Suc k \<and> res = Inr PNone)
       \<and> (0 < n \<and> fatal_answer e (upstream e [Post (API_URL e) (build_payload img mime prompt schema)])
            \<longrightarrow> res = Inr PNone \<and> tr = [Post (API_URL e) (build_payload img mime prompt schema)])"
proof (cases "0 < n")
  case False
  then have "tr = []" using run key by (simp add: process_no_attempts)
  then show ?thesis using False by simp
next
  case True
  let ?bt = "backoff_trace (API_URL e) (build_payload img mime prompt schema) 0"
  from process_run[OF key True, of img mime prompt schema] run
  obtain m where m: "m < nat n"
    and before: "\<forall>j<m. retryable (upstream e (?bt j))"
    and res: "res = (case upstream e (?bt m) of
            ConnectionFailed \<Rightarrow> Inr PNone | Responded r \<Rightarrow> handled (try_body e r))"
    and tr: "tr = ?bt m"
    by auto
  have att: "attempts tr = Suc m" using tr by (simp add: attempts_backoff_trace)
  have upto: "\<And>k. k \<le> m \<Longrightarrow> upto_attempt k tr = ?bt k"
    using tr by (simp add: upto_attempt_backoff_trace)
  have a: "\<forall>k. Suc k < attempts tr \<longrightarrow>
            retryable (upstream e (upto_attempt k tr)) \<and> int (Suc k) < n
            \<and> delay_before (Suc k) tr = [2 ^ k]"
  proof (intro allI impI)
    fix k assume "Suc k < attempts tr"
    then have km: "k < m" using att by simp
    then have "retryable (upstream e (upto_attempt k tr))" using before upto by simp
    moreover have "int (Suc k) < n" using km m by linarith
    moreover have "delay_before (Suc k) tr = [2 ^ k]"
      using delay_before_backoff_trace[OF km] tr by (simp del: delay_before.simps)
    ultimately show "retryable (upstream e (upto_attempt k tr)) \<and> int (Suc k) < n
            \<and> delay_before (Suc k) tr = [2 ^ k]" by blast
  qed
  have b: "\<forall>k<attempts tr. fatal_answer e (upstream e (upto_attempt k tr)) \<longrightarrow>
            attempts tr = Suc k \<and> res = Inr PNone"
  proof (intro allI impI)
    fix k assume k: "k < attempts tr" and f: "fatal_answer e (upstream e (upto_attempt k tr))"
    from k att have "k \<le> m" by simp
    then have f': "fatal_answer e (upstream e (?bt k))" using f upto by simp
    then have "\<not> retryable (upstream e (?bt k))" by (rule fatal_not_retryable)
    then have "\<not> k < m" using before by blast
    with \<open>k \<le> m\<close> have "k = m" by simp
    then show "attempts tr = Suc k \<and> res = Inr PNone"
      using att res f' by (simp add: final_fatal)
  qed
  have c: "0 < n \<and> fatal_answer e (upstream e [Post (API_URL e) (build_payload img mime prompt schema)])
            \<longrightarrow> res = Inr PNone \<and> tr = [Post (API_URL e) (build_payload img mime prompt schema)]"
  proof
    assume "0 < n \<and> fatal_answer e (upstream e [Post (API_URL e) (build_payload img mime prompt schema)])"
    then have f: "fatal_answer e (upstream e (?bt 0))" by simp
    then have "\<not> retryable (upstream e (?bt 0))" by (rule fatal_not_retryable)
    then have "m = 0" using before by (cases m) auto
    then show "res = Inr PNone \<and> tr = [Post (API_URL e) (build_payload img mime prompt schema)]"
      using res tr f by (simp add: final_fatal)
  qed
  show ?thesis using a b c by blast
qed


lemma process_first_stop:
  assumes "API_KEY e \<noteq> []" and "0 < n"
    and "\<not> retryable (upstream e [Post (API_URL e) (build_payload img mime prompt schema)])"
  shows "process_image_to_json e img mime prompt schema n [] =
     ((case upstream e [Post (API_URL e) (build_payload img mime prompt schema)] of
         ConnectionFailed \<Rightarrow> Inr PNone
       | Responded r \<Rightarrow> handled (try_body e r)),
      [Post (API_URL e) (build_payload img mime prompt schema)])"
  using assms retry_loop_stop[of 0 n e "[]" "build_payload img mime prompt schema"]
  by (simp add: process_image_to_json_def)

lemma status_only_404: "other_http_error (status_only 404)"
  by (simp add: other_http_error_def status_only_def raises_for_status_def)

lemma busy_once_run:
  "process_image_to_json env_busy_once img mime prompt schema 5 [] =
     (Inr PNone,
      [Post (API_URL env_busy_once) (build_payload img mime prompt schema), Sleep 1,
       Post (API_URL env_busy_once) (build_payload img mime prompt schema)])"
proof -
  let ?e = "env_busy_once" and ?p = "build_payload img mime prompt schema"
  have up: "upstream ?e = busy_once" by (simp add: env_busy_once_def upstream_test_env)
  have first: "retryable (upstream ?e ([] @ [Post (API_URL ?e) ?p]))"
    by (simp add: up busy_once_def retryable_503)
  have second: "\<not> retryable (upstream ?e ([Post (API_URL ?e) ?p, Sleep (2 ^ nat 0)] @ [Post (API_URL ?e) ?p]))"
    using fatal_not_retryable[of ?e "status_only 404"] status_only_404
    by (simp add: up busy_once_def fatal_answer_def)
  have "retry_loop ?e ?p 5 0 [] = retry_loop ?e ?p 5 (0 + 1) ([] @ [Post (API_URL ?e) ?p, Sleep (2 ^ nat 0)])"
    using first by (intro retry_loop_retry) simp_all
  also have "\<dots> = ((case upstream ?e ([Post (API_URL ?e) ?p, Sleep (2 ^ nat 0)] @ [Post (API_URL ?e) ?p]) of
             ConnectionFailed \<Rightarrow> Inr PNone
           | Responded r \<Rightarrow> handled (try_body ?e r)),
          [Post (API_URL ?e) ?p, Sleep (2 ^ nat 0)] @ [Post (API_URL ?e) ?p])"
    using second retry_loop_stop[of "0 + 1" 5 ?e "[Post (API_URL ?e) ?p, Sleep (2 ^ nat 0)]" ?p]
    by simp
  also have "\<dots> = (Inr PNone, [Post (API_URL ?e) ?p, Sleep 1, Post (API_URL ?e) ?p])"
    using final_fatal[of ?e "status_only 404"] status_only_404
    by (simp add: up busy_once_def fatal_answer_def)
  finally show ?thesis
    by (simp add: process_image_to_json_def env_busy_once_def API_KEY_test_env)
qed

text \<open>
  Claim C5 as stated fails: against a service that always answers 503, with the default of
  five attempts, the sleep before attempt 1 is 1 and not \<open>2 ^ 1\<close>, and the sleeps of the run
  are 1, 2, 4, 8: a sleep of 16 never happens.
\<close>

theorem C5_counterexample:
  "delay_before (Suc 0)
     (snd (process_image_to_json env_busy (bytes_to_base64 jpeg_bytes) ''image/jpeg''
             ANALYSIS_PROMPT ID_CARD_SCHEMA 5 [])) = [1]
   \<and> delay_before (Suc 0)
     (snd (process_image_to_json env_busy (bytes_to_base64 jpeg_bytes) ''image/jpeg''
             ANALYSIS_PROMPT ID_CARD_SCHEMA 5 [])) \<noteq> [2 ^ Suc 0]
   \<and> delays
     (snd (process_image_to_json env_busy (bytes_to_base64 jpeg_bytes) ''image/jpeg''
             ANALYSIS_PROMPT ID_CARD_SCHEMA 5 [])) = [1, 2, 4, 8]
   \<and> delays
     (snd (process_image_to_json env_busy (bytes_to_base64 jpeg_bytes) ''image/jpeg''
             ANALYSIS_PROMPT ID_CARD_SCHEMA 5 [])) \<noteq> [1, 2, 4, 8, 16]"
  by (simp add: busy_run backoff_trace_4)

text \<open>
  A run answered 503 and then 404: two attempts, and the sleep before attempt 1 is \<open>2 ^ 0\<close>.
\<close>

theorem C5_witness:
  "process_image_to_json env_busy_once (bytes_to_base64 jpeg_bytes) ''image/jpeg''
       ANALYSIS_PROMPT ID_CARD_SCHEMA 5 []
     = (Inr PNone,
        [Post (API_URL env_busy_once) (endpoint_payload jpeg_bytes ''image/jpeg''), Sleep 1,
         Post (API_URL env_busy_once) (endpoint_payload jpeg_bytes ''image/jpeg'')])
   \<and> Suc 0 < attempts
        [Post (API_URL env_busy_once) (endpoint_payload jpeg_bytes ''image/jpeg''), Sleep 1,
         Post (API_URL env_busy_once) (endpoint_payload jpeg_bytes ''image/jpeg'')]
   \<and> delay_before (Suc 0)
        [Post (API_URL env_busy_once) (endpoint_payload jpeg_bytes ''image/jpeg''), Sleep 1,
         Post (API_URL env_busy_once) (endpoint_payload jpeg_bytes ''image/jpeg'')] = [2 ^ 0]"
proof -
  let ?tr = "[Post (API_URL env_busy_once) (endpoint_payload jpeg_bytes ''image/jpeg''), Sleep 1,
         Post (API_URL env_busy_once) (endpoint_payload jpeg_bytes ''image/jpeg'')]"
  have run: "process_image_to_json env_busy_once (bytes_to_base64 jpeg_bytes) ''image/jpeg''
       ANALYSIS_PROMPT ID_CARD_SCHEMA 5 [] = (Inr PNone, ?tr)"
    by (simp add: busy_once_run endpoint_payload_def)
  have lt: "Suc 0 < attempts ?tr" by simp
  from C5_delay_after_attempt[OF run]
  have "\<forall>k. Suc k < attempts ?tr \<longrightarrow> delay_before (Suc k) ?tr = [2 ^ k]" by blast
  with lt have "delay_before (Suc 0) ?tr = [2 ^ 0]" by blast
  with run lt show ?thesis by blast
qed

lemma key_test_env: "API_KEY (test_env up ld) \<noteq> []"
  by (simp add: API_KEY_test_env)

text \<open>
  Four runs with the default of five attempts: one answered 503 and then 404, which retries
  once and stops at the second attempt; and one each answered 404, cut off by a network
  failure, and answered with a text that is not JSON, which stop after one request.
\<close>

lemma retry_policy_examples:
  "Suc 0 < attempts (snd (process_image_to_json env_busy_once (bytes_to_base64 jpeg_bytes)
       ''image/jpeg'' ANALYSIS_PROMPT ID_CARD_SCHEMA 5 []))
   \<and> retryable (upstream env_busy_once (upto_attempt 0
       (snd (process_image_to_json env_busy_once (bytes_to_base64 jpeg_bytes)
          ''image/jpeg'' ANALYSIS_PROMPT ID_CARD_SCHEMA 5 []))))
   \<and> fatal_answer env_busy_once (upstream env_busy_once (upto_attempt 1
       (snd (process_image_to_json env_busy_once (bytes_to_base64 jpeg_bytes)
          ''image/jpeg'' ANALYSIS_PROMPT ID_CARD_SCHEMA 5 []))))
   \<and> attempts (snd (process_image_to_json env_busy_once (bytes_to_base64 jpeg_bytes)
       ''image/jpeg'' ANALYSIS_PROMPT ID_CARD_SCHEMA 5 [])) = 2
   \<and> fatal_answer env_not_found
        (upstream env_not_found [Post (API_URL env_not_found) (endpoint_payload jpeg_bytes ''image/jpeg'')])
   \<and> process_image_to_json env_not_found (bytes_to_base64 jpeg_bytes) ''image/jpeg''
        ANALYSIS_PROMPT ID_CARD_SCHEMA 5 []
      = (Inr PNone, [Post (API_URL env_not_found) (endpoint_payload jpeg_bytes ''image/jpeg'')])
   \<and> fatal_answer env_offline
        (upstream env_offline [Post (API_URL env_offline) (endpoint_payload jpeg_bytes ''image/jpeg'')])
   \<and> process_image_to_json env_offline (bytes_to_base64 jpeg_bytes) ''image/jpeg''
        ANALYSIS_PROMPT ID_CARD_SCHEMA 5 []
      = (Inr PNone, [Post (API_URL env_offline) (endpoint_payload jpeg_bytes ''image/jpeg'')])
   \<and> fatal_answer env_bad_text
        (upstream env_bad_text [Post (API_URL env_bad_text) (endpoint_payload jpeg_bytes ''image/jpeg'')])
   \<and> process_image_to_json env_bad_text (bytes_to_base64 jpeg_bytes) ''image/jpeg''
        ANALYSIS_PROMPT ID_CARD_SCHEMA 5 []
      = (Inr PNone, [Post (API_URL env_bad_text) (endpoint_payload jpeg_bytes ''image/jpeg'')])"
proof -
  let ?img = "bytes_to_base64 jpeg_bytes"
  let ?run = "\<lambda>e. process_image_to_json e ?img ''image/jpeg'' ANALYSIS_PROMPT ID_CARD_SCHEMA 5 []"
  let ?p = "endpoint_payload jpeg_bytes ''image/jpeg''"
  have pair: "\<And>e. ?run e = (fst (?run e), snd (?run e))" by simp
  \<comment> \<open>503, then 404\<close>
  have k1: "API_KEY env_busy_once \<noteq> []" by (simp add: env_busy_once_def key_test_env)
  have tr1: "snd (?run env_busy_once) =
      [Post (API_URL env_busy_once) ?p, Sleep 1, Post (API_URL env_busy_once) ?p]"
    by (simp add: busy_once_run endpoint_payload_def)
  have a1: "Suc 0 < attempts (snd (?run env_busy_once))" by (simp add: tr1)
  have up1: "upto_attempt 1 (snd (?run env_busy_once)) =
      [Post (API_URL env_busy_once) ?p, Sleep 1, Post (API_URL env_busy_once) ?p]"
    by (simp only: tr1) simp
  have "upstream env_busy_once
      [Post (API_URL env_busy_once) ?p, Sleep 1, Post (API_URL env_busy_once) ?p] = status_only 404"
    by (simp add: env_busy_once_def upstream_test_env busy_once_def)
  then have f1: "fatal_answer env_busy_once
      (upstream env_busy_once (upto_attempt 1 (snd (?run env_busy_once))))"
    using status_only_404 by (simp only: up1) (simp add: fatal_answer_def)
  note c1 = retry_policy[OF k1 pair[of env_busy_once]]
  from c1 a1 have r1: "retryable (upstream env_busy_once (upto_attempt 0 (snd (?run env_busy_once))))"
    by blast
  have "1 < attempts (snd (?run env_busy_once))" using a1 by simp
  with c1 f1 have "attempts (snd (?run env_busy_once)) = Suc 1" by blast
  then have n1: "attempts (snd (?run env_busy_once)) = 2" by simp
  \<comment> \<open>404 at once\<close>
  have k2: "API_KEY env_not_found \<noteq> []" by (simp add: env_not_found_def key_test_env)
  have f2: "fatal_answer env_not_found (upstream env_not_found [Post (API_URL env_not_found) ?p])"
    using status_only_404
    by (simp add: env_not_found_def upstream_test_env always_def fatal_answer_def)
  from retry_policy[OF k2 pair[of env_not_found]] f2
  have "fst (?run env_not_found) = Inr PNone \<and>
      snd (?run env_not_found) = [Post (API_URL env_not_found) ?p]"
    by (simp add: endpoint_payload_def)
  then have r2: "?run env_not_found = (Inr PNone, [Post (API_URL env_not_found) ?p])"
    by (simp add: prod_eq_iff)
  \<comment> \<open>no connection\<close>
  have k3: "API_KEY env_offline \<noteq> []" by (simp add: env_offline_def key_test_env)
  have f3: "fatal_answer env_offline (upstream env_offline [Post (API_URL env_offline) ?p])"
    by (simp add: env_offline_def upstream_test_env always_def fatal_answer_def)
  from retry_policy[OF k3 pair[of env_offline]] f3
  have "fst (?run env_offline) = Inr PNone \<and>
      snd (?run env_offline) = [Post (API_URL env_offline) ?p]"
    by (simp add: endpoint_payload_def)
  then have r3: "?run env_offline = (Inr PNone, [Post (API_URL env_offline) ?p])"
    by (simp add: prod_eq_iff)
  \<comment> \<open>a text that is not JSON\<close>
  have k4: "API_KEY env_bad_text \<noteq> []" by (simp add: env_bad_text_def key_test_env)
  have f4: "fatal_answer env_bad_text (upstream env_bad_text [Post (API_URL env_bad_text) ?p])"
    by (simp add: env_bad_text_def upstream_test_env loads_test_env always_def fatal_answer_def
        unparsable_text_def success_text_def success_body_def raises_for_status_def
        candidate_text_def no_parser_def)
  from retry_policy[OF k4 pair[of env_bad_text]] f4
  have "fst (?run env_bad_text) = Inr PNone \<and>
      snd (?run env_bad_text) = [Post (API_URL env_bad_text) ?p]"
    by (simp add: endpoint_payload_def)
  then have r4: "?run env_bad_text = (Inr PNone, [Post (API_URL env_bad_text) ?p])"
    by (simp add: prod_eq_iff)
  show ?thesis using a1 r1 f1 n1 f2 r2 f3 r3 f4 r4 by blast
qed

section \<open>The endpoint, step by step\<close>

lemma bytes_to_base64_nonempty: "contents \<noteq> [] \<Longrightarrow> bytes_to_base64 contents \<noteq> []"
  by (cases contents rule: b64encode.cases) (simp_all add: bytes_to_base64_def Let_def)

lemma bytes_to_base64_empty: "bytes_to_base64 [] = []"
  by (simp add: bytes_to_base64_def)

lemma startswith_nonempty: "startswith m ''image/'' \<Longrightarrow> m \<noteq> []"
  by (auto simp: startswith_def)

lemma truthy_error_entry:
  "truthy (dict_get d ''error'' PNone) \<Longrightarrow> dict_get d ''error'' dflt = dict_get d ''error'' PNone"
  by (auto simp: dict_get_def split: option.splits)


lemma endpoint_step:
  assumes fr: "file_read file = Some contents" and ne: "contents \<noteq> []"
    and ct: "content_type file = Some m" and sw: "startswith m ''image/''"
  shows "extract_id_data e file tr =
     (case process_image_to_json e (bytes_to_base64 contents) m ANALYSIS_PROMPT ID_CARD_SCHEMA 5 tr of
        (Inl ex, tr') \<Rightarrow> (Uncaught ex, tr')
      | (Inr structured_result, tr') \<Rightarrow>
          (case (if isinstance_dict structured_result
                 then py_get structured_result ''error'' PNone
                 else Inr (PBool False)) of
             Inl ex \<Rightarrow> (Uncaught ex, tr')
           | Inr is_error \<Rightarrow>
               if truthy is_error then
                 (case py_get structured_result ''error''
                         (PStr ''Authentication failed or API key missing.'') of
                    Inl ex \<Rightarrow> (Uncaught ex, tr')
                  | Inr error_message \<Rightarrow> (HTTPException 401 error_message, tr'))
               else if truthy structured_result then (Return structured_result, tr')
               else
                 (HTTPException 503 (PStr (
                    ''Gemini API call failed or returned an unstructured '' @
                    ''response after multiple retries.'')), tr')))"
proof -
  have b: "bytes_to_base64 contents \<noteq> []" using ne by (rule bytes_to_base64_nonempty)
  have mn: "m \<noteq> []" using sw by (rule startswith_nonempty)
  show ?thesis
    unfolding extract_id_data_def
    by (simp only: fr ct option.case Let_def b mn sw if_False simp_thms)
qed


lemma endpoint_uncaught:
  assumes "file_read file = Some contents" and "contents \<noteq> []"
    and "content_type file = Some m" and "startswith m ''image/''"
    and run: "process_image_to_json e (bytes_to_base64 contents) m ANALYSIS_PROMPT ID_CARD_SCHEMA 5 tr
         = (Inl ex, tr')"
  shows "extract_id_data e file tr = (Uncaught ex, tr')"
  by (simp only: endpoint_step[OF assms(1-4)] run prod.case sum.case)

lemma endpoint_401:
  assumes "file_read file = Some contents" and "contents \<noteq> []"
    and "content_type file = Some m" and "startswith m ''image/''"
    and run: "process_image_to_json e (bytes_to_base64 contents) m ANALYSIS_PROMPT ID_CARD_SCHEMA 5 tr
         = (Inr (PDict d), tr')"
    and err: "truthy (dict_get d ''error'' PNone)"
  shows "extract_id_data e file tr = (HTTPException 401 (dict_get d ''error'' PNone), tr')"
proof -
  have d: "isinstance_dict (PDict d)" by (simp add: isinstance_dict_def)
  show ?thesis
    by (simp only: endpoint_step[OF assms(1-4)] run prod.case sum.case d if_True py_get.simps
        err truthy_error_entry[OF err, of "PStr ''Authentication failed or API key missing.''"])
qed

lemma endpoint_no_error:
  assumes "file_read file = Some contents" and "contents \<noteq> []"
    and "content_type file = Some m" and "startswith m ''image/''"
    and run: "process_image_to_json e (bytes_to_base64 contents) m ANALYSIS_PROMPT ID_CARD_SCHEMA 5 tr
         = (Inr v, tr')"
    and noerr: "\<not> (\<exists>d. v = PDict d \<and> truthy (dict_get d ''error'' PNone))"
  shows "extract_id_data e file tr =
     (if truthy v then (Return v, tr')
      else (HTTPException 503 (PStr (
              ''Gemini API call failed or returned an unstructured '' @
              ''response after multiple retries.'')), tr'))"
proof -
  have c: "(if isinstance_dict v then py_get v ''error'' PNone else Inr (PBool False))
      = Inr (if isinstance_dict v then (case v of PDict d \<Rightarrow> dict_get d ''error'' PNone | _ \<Rightarrow> PNone)
             else PBool False)"
    by (cases v) (simp_all add: isinstance_dict_def)
  have f: "\<not> truthy (if isinstance_dict v then (case v of PDict d \<Rightarrow> dict_get d ''error'' PNone | _ \<Rightarrow> PNone)
             else PBool False)"
    using noerr by (cases v) (simp_all add: isinstance_dict_def)
  show ?thesis
    by (simp only: endpoint_step[OF assms(1-4)] run prod.case sum.case c f if_False)
qed


lemma endpoint_result_cases:
  "(\<exists>code detail. extract_id_data e file tr = (HTTPException code detail, tr) \<and> code \<in> {400, 500})
   \<or> (\<exists>contents m. file_read file = Some contents \<and> contents \<noteq> []
        \<and> content_type file = Some m \<and> startswith m ''image/'')"
proof (cases "file_read file")
  case None
  then show ?thesis by (simp add: extract_id_data_def)
next
  case (Some contents)
  show ?thesis
  proof (cases "content_type file")
    case None
    then show ?thesis using Some by (simp add: extract_id_data_def)
  next
    case m: (Some m)
    show ?thesis
    proof (cases "m = [] \<or> \<not> startswith m ''image/''")
      case True
      then show ?thesis using Some m by (auto simp: extract_id_data_def)
    next
      case False
      show ?thesis
      proof (cases "contents = []")
        case True
        then show ?thesis using Some m False
          by (simp add: extract_id_data_def bytes_to_base64_empty)
      next
        case ne: False
        then show ?thesis using Some m False by simp
      qed
    qed
  qed
qed

lemma main_try_body_eq: "main_try_body e r = try_body e r"
  by (simp add: main_try_body_def try_body_def)

lemma main_retry_loop_eq: "main_retry_loop e p n a tr = retry_loop e p n a tr"
proof (induction "nat (n - a)" arbitrary: a tr)
  case 0
  then have "\<not> a < n" by simp
  then show ?case by (simp add: main_retry_loop.simps retry_loop.simps)
next
  case (Suc k)
  have IH: "\<And>tr'. main_retry_loop e p n (a + 1) tr' = retry_loop e p n (a + 1) tr'"
    using Suc.hyps(1)[of "a + 1"] Suc.hyps(2) by simp
  show ?case
    by (subst main_retry_loop.simps, subst retry_loop.simps)
       (auto simp: IH main_try_body_eq Let_def split: post_outcome.splits sum.splits py_exn.splits)
qed

lemma answers_text_not_retryable: "answers_text out s \<Longrightarrow> \<not> retryable out"
  by (cases out) (auto simp: answers_text_def retryable_def raises_for_status_def)


lemma final_text_any:
  "answers_text out s \<Longrightarrow>
   (case out of ConnectionFailed \<Rightarrow> Inr PNone | Responded r \<Rightarrow> handled (try_body e r))
   = handled (loads e s)"
  by (cases out) (auto simp: answers_text_def try_body_text split: sum.splits)

lemma final_text:
  "answers_text out s \<Longrightarrow> loads e s = Inr v \<Longrightarrow>
   (case out of ConnectionFailed \<Rightarrow> Inr PNone | Responded r \<Rightarrow> handled (try_body e r)) = Inr v"
  by (simp add: final_text_any handled_def)


lemma process_text:
  assumes "API_KEY e \<noteq> []" and "0 < n"
    and "answers_text (upstream e [Post (API_URL e) (build_payload img mime prompt schema)]) s"
    and "loads e s = Inr v"
  shows "process_image_to_json e img mime prompt schema n [] =
     (Inr v, [Post (API_URL e) (build_payload img mime prompt schema)])"
  using process_first_stop[OF assms(1,2) answers_text_not_retryable[OF assms(3)]]
    final_text[OF assms(3,4)]
  by simp


lemma main_process_eq:
  "API_KEY e \<noteq> [] \<Longrightarrow>
   main_process_image_to_json e img mime prompt schema n tr =
   process_image_to_json e img mime prompt schema n tr"
  by (simp add: main_process_image_to_json_def process_image_to_json_def main_retry_loop_eq)


lemma endpoint_returns_only_after_call:
  assumes ret: "extract_id_data e file tr = (Return v, tr')"
  shows "\<exists>contents m. file_read file = Some contents \<and> contents \<noteq> []
      \<and> content_type file = Some m \<and> startswith m ''image/''
      \<and> process_image_to_json e (bytes_to_base64 contents) m ANALYSIS_PROMPT ID_CARD_SCHEMA 5 tr
          = (Inr v, tr')
      \<and> truthy v \<and> \<not> (\<exists>d. v = PDict d \<and> truthy (dict_get d ''error'' PNone))"
proof -
  from endpoint_result_cases[of e "file" tr] ret
  obtain contents m where f: "file_read file = Some contents" "contents \<noteq> []"
      "content_type file = Some m" "startswith m ''image/''"
    by auto
  obtain r tr2 where run:
    "process_image_to_json e (bytes_to_base64 contents) m ANALYSIS_PROMPT ID_CARD_SCHEMA 5 tr = (r, tr2)"
    by (cases "process_image_to_json e (bytes_to_base64 contents) m ANALYSIS_PROMPT ID_CARD_SCHEMA 5 tr")
  show ?thesis
  proof (cases r)
    case (Inl ex)
    with endpoint_uncaught[OF f] run ret show ?thesis by simp
  next
    case (Inr w)
    show ?thesis
    proof (cases "\<exists>d. w = PDict d \<and> truthy (dict_get d ''error'' PNone)")
      case True
      then obtain d where "w = PDict d" "truthy (dict_get d ''error'' PNone)" by blast
      with endpoint_401[OF f] run Inr ret show ?thesis by simp
    next
      case False
      from endpoint_no_error[OF f _ False] run Inr
      have "extract_id_data e file tr =
        (if truthy w then (Return w, tr2)
         else (HTTPException 503 (PStr (
              ''Gemini API call failed or returned an unstructured '' @
              ''response after multiple retries.'')), tr2))"
        by simp
      with ret have "truthy w \<and> w = v \<and> tr2 = tr'" by (auto split: if_splits)
      with f run Inr False show ?thesis by blast
    qed
  qed
qed

section \<open>Claims about the failure values\<close>



lemma API_KEY_env_no_key: "API_KEY env_no_key = []"
  by (simp add: API_KEY_def env_no_key_def)

lemma API_KEY_env_empty_key: "API_KEY env_empty_key = []"
  by (simp add: API_KEY_def env_empty_key_def)





section \<open>Claims about the missing key, an empty list of candidates, the two copies, an empty upload\<close>

lemma jpeg_file_fields:
  "file_read jpeg_file = Some jpeg_bytes" "jpeg_bytes \<noteq> []"
  "content_type jpeg_file = Some ''image/jpeg''" "startswith ''image/jpeg'' ''image/''"
  by (simp_all add: jpeg_file_def jpeg_bytes_def startswith_def)

lemma empty_candidates_try_body:
  "try_body e \<lparr>status_code = 200, json_body = Inr (PDict [(''candidates'', PList [])])\<rparr>
     = Inl IndexError"
  by (simp add: try_body_def raises_for_status_def then_do_def dict_get_def seq_index_def)

lemma empty_candidates_run:
  "process_image_to_json env_empty_candidates img mime prompt schema 5 [] =
     (Inl IndexError, [Post (API_URL env_empty_candidates) (build_payload img mime prompt schema)])"
proof -
  have key: "API_KEY env_empty_candidates \<noteq> []"
    by (simp add: env_empty_candidates_def key_test_env)
  have up: "upstream env_empty_candidates
      [Post (API_URL env_empty_candidates) (build_payload img mime prompt schema)]
      = Responded \<lparr>status_code = 200, json_body = Inr (PDict [(''candidates'', PList [])])\<rparr>"
    by (simp add: env_empty_candidates_def upstream_test_env always_def success_body_def)
  have nr: "\<not> retryable (upstream env_empty_candidates
      [Post (API_URL env_empty_candidates) (build_payload img mime prompt schema)])"
    by (simp add: up retryable_def)
  from process_first_stop[OF key _ nr, of 5] show ?thesis
    by (simp add: up empty_candidates_try_body handled_def)
qed

text \<open>
  Claim C1 fails on the code. A 200 answer whose body binds \<^verbatim>\<open>candidates\<close> to the empty list
  makes \<^verbatim>\<open>result.get('candidates', [{}])[0]\<close> raise IndexError, which none of the three
  handlers catches: \<^verbatim>\<open>process_image_to_json\<close> (in both files) ends with that exception
  after one request instead of returning \<^verbatim>\<open>None\<close>, and the endpoint answers 500.
\<close>

theorem C1_empty_candidates_raises:
  "process_image_to_json env_empty_candidates (bytes_to_base64 jpeg_bytes) ''image/jpeg''
      ANALYSIS_PROMPT ID_CARD_SCHEMA 5 []
     = (Inl IndexError,
        [Post (API_URL env_empty_candidates) (endpoint_payload jpeg_bytes ''image/jpeg'')])
   \<and> main_process_image_to_json env_empty_candidates (bytes_to_base64 jpeg_bytes) ''image/jpeg''
      ANALYSIS_PROMPT ID_CARD_SCHEMA 5 []
     = (Inl IndexError,
        [Post (API_URL env_empty_candidates) (endpoint_payload jpeg_bytes ''image/jpeg'')])
   \<and> extract_id_data env_empty_candidates jpeg_file []
     = (Uncaught IndexError,
        [Post (API_URL env_empty_candidates) (endpoint_payload jpeg_bytes ''image/jpeg'')])
   \<and> http_status (fst (extract_id_data env_empty_candidates jpeg_file [])) = 500"
proof -
  have key: "API_KEY env_empty_candidates \<noteq> []"
    by (simp add: env_empty_candidates_def key_test_env)
  have run: "process_image_to_json env_empty_candidates (bytes_to_base64 jpeg_bytes) ''image/jpeg''
      ANALYSIS_PROMPT ID_CARD_SCHEMA 5 []
     = (Inl IndexError,
        [Post (API_URL env_empty_candidates) (endpoint_payload jpeg_bytes ''image/jpeg'')])"
    by (simp add: empty_candidates_run endpoint_payload_def)
  have m: "main_process_image_to_json env_empty_candidates (bytes_to_base64 jpeg_bytes) ''image/jpeg''
      ANALYSIS_PROMPT ID_CARD_SCHEMA 5 []
     = (Inl IndexError,
        [Post (API_URL env_empty_candidates) (endpoint_payload jpeg_bytes ''image/jpeg'')])"
    using run by (simp add: main_process_eq[OF key])
  have ep: "extract_id_data env_empty_candidates jpeg_file []
     = (Uncaught IndexError,
        [Post (API_URL env_empty_candidates) (endpoint_payload jpeg_bytes ''image/jpeg'')])"
    using endpoint_uncaught[OF jpeg_file_fields run] .
  show ?thesis using run m ep by simp
qed

text \<open>
  Claim C2 fails on the code in its second half. Without an API key (absent or empty)
  \<^verbatim>\<open>process_image_to_json\<close> posts nothing and returns the pair of the error dictionary and
  401. The pair is not a dictionary, so the endpoint's test for an \<^verbatim>\<open>error\<close> entry does not
  apply; the pair is truthy, so the endpoint returns it: the answer is 200 with the pair as
  body, not 401.
\<close>

theorem C2_missing_key_answers_200:
  "process_image_to_json env_no_key (bytes_to_base64 jpeg_bytes) ''image/jpeg''
      ANALYSIS_PROMPT ID_CARD_SCHEMA 5 []
     = (Inr (PTuple [PDict [(''error'', PStr ''API Key is missing'')], PInt 401]), [])
   \<and> extract_id_data env_no_key jpeg_file []
     = (Return (PTuple [PDict [(''error'', PStr ''API Key is missing'')], PInt 401]), [])
   \<and> http_status (fst (extract_id_data env_no_key jpeg_file [])) = 200
   \<and> extract_id_data env_empty_key jpeg_file []
     = (Return (PTuple [PDict [(''error'', PStr ''API Key is missing'')], PInt 401]), [])
   \<and> http_status (fst (extract_id_data env_empty_key jpeg_file [])) = 200"
proof -
  let ?v = "PTuple [PDict [(''error'', PStr ''API Key is missing'')], PInt 401]"
  have v: "missing_key_value = ?v" by (simp add: missing_key_value_def)
  have t: "truthy ?v" by simp
  have nd: "\<not> (\<exists>d. ?v = PDict d \<and> truthy (dict_get d ''error'' PNone))" by simp
  have run1: "process_image_to_json env_no_key (bytes_to_base64 jpeg_bytes) ''image/jpeg''
      ANALYSIS_PROMPT ID_CARD_SCHEMA 5 [] = (Inr ?v, [])"
    using process_no_key[OF API_KEY_env_no_key] by (simp only: v)
  have run2: "process_image_to_json env_empty_key (bytes_to_base64 jpeg_bytes) ''image/jpeg''
      ANALYSIS_PROMPT ID_CARD_SCHEMA 5 [] = (Inr ?v, [])"
    using process_no_key[OF API_KEY_env_empty_key] by (simp only: v)
  have e1: "extract_id_data env_no_key jpeg_file [] = (Return ?v, [])"
    using endpoint_no_error[OF jpeg_file_fields run1 nd] t by (simp only: if_True)
  have e2: "extract_id_data env_empty_key jpeg_file [] = (Return ?v, [])"
    using endpoint_no_error[OF jpeg_file_fields run2 nd] t by (simp only: if_True)
  show ?thesis using run1 e1 e2 by simp
qed




text \<open>
  Claim C10. For an upload with a content type that starts with \<^verbatim>\<open>image/\<close> and an empty
  body, \<^verbatim>\<open>bytes_to_base64\<close> gives the empty string and the endpoint raises the 500
  failed-to-encode error, whatever the environment, with the effects unchanged: nothing is
  posted to the upstream service.
\<close>

theorem C10_empty_upload:
  assumes "file_read file = Some []" and "content_type file = Some m"
    and "startswith m ''image/''"
  shows "bytes_to_base64 [] = []
       \<and> extract_id_data e file tr
         = (HTTPException 500 (PStr ''Failed to encode image data for API submission.''), tr)
       \<and> http_status (fst (extract_id_data e file tr)) = 500
       \<and> attempts (snd (extract_id_data e file tr)) = attempts tr"
proof -
  have mn: "m \<noteq> []" using assms(3) by (rule startswith_nonempty)
  have "extract_id_data e file tr
         = (HTTPException 500 (PStr ''Failed to encode image data for API submission.''), tr)"
    unfolding extract_id_data_def
    by (simp only: assms option.case Let_def bytes_to_base64_empty mn if_False if_True simp_thms)
  then show ?thesis by (simp add: bytes_to_base64_empty)
qed

text \<open>
  An empty upload declared as \<^verbatim>\<open>image/png\<close>.
\<close>

theorem C10_witness:
  "file_read empty_file = Some [] \<and> content_type empty_file = Some ''image/png''
   \<and> startswith ''image/png'' ''image/''
   \<and> extract_id_data env_jane empty_file []
      = (HTTPException 500 (PStr ''Failed to encode image data for API submission.''), [])
   \<and> snd (extract_id_data env_jane empty_file []) = []"
proof -
  have a: "file_read empty_file = Some []" by (simp add: empty_file_def)
  have b: "content_type empty_file = Some ''image/png''" by (simp add: empty_file_def)
  have c: "startswith ''image/png'' ''image/''" by (simp add: startswith_def)
  from C10_empty_upload[OF a b c, of env_jane "[]"]
  have "extract_id_data env_jane empty_file []
      = (HTTPException 500 (PStr ''Failed to encode image data for API submission.''), [])"
    by blast
  then show ?thesis using a b c by simp
qed

section \<open>Claims about a successful extraction\<close>

lemma answers_success_text: "answers_text (success_text s) s"
  by (simp add: answers_text_def success_text_def success_body_def raises_for_status_def
      candidate_text_def)

lemma text_run:
  "process_image_to_json (test_env (always (success_text s)) (parses_to s v)) img mime prompt
      schema 5 [] =
     (Inr v, [Post (API_URL (test_env (always (success_text s)) (parses_to s v)))
                (build_payload img mime prompt schema)])"
  by (rule process_text[where s = s])
     (simp_all add: key_test_env upstream_test_env loads_test_env always_def answers_success_text
        parses_to_def)

lemma jane_no_error: "\<not> (\<exists>d. jane_doe = PDict d \<and> truthy (dict_get d ''error'' PNone))"
  by (simp add: jane_doe_def dict_get_def)

lemma jane_truthy: "truthy jane_doe"
  by (simp add: jane_doe_def)

lemma process_success_at:
  assumes key: "API_KEY e \<noteq> []" and k: "int k < n"
    and before: "\<forall>j<k. retryable
        (upstream e (backoff_trace (API_URL e) (build_payload img mime prompt schema) 0 j))"
    and a: "answers_text
        (upstream e (backoff_trace (API_URL e) (build_payload img mime prompt schema) 0 k)) s"
  shows "process_image_to_json e img mime prompt schema n [] =
     (handled (loads e s), backoff_trace (API_URL e) (build_payload img mime prompt schema) 0 k)"
proof -
  let ?bt = "backoff_trace (API_URL e) (build_payload img mime prompt schema) 0"
  have n: "0 < n" using k by linarith
  from process_run[OF key n, of img mime prompt schema]
  obtain m where m: "m < nat n"
    and bm: "\<forall>j<m. retryable (upstream e (?bt j))"
    and last: "\<not> (retryable (upstream e (?bt m)) \<and> Suc m < nat n)"
    and run: "process_image_to_json e img mime prompt schema n [] =
        ((case upstream e (?bt m) of
            ConnectionFailed \<Rightarrow> Inr PNone | Responded r \<Rightarrow> handled (try_body e r)), ?bt m)"
    by blast
  have nk: "\<not> retryable (upstream e (?bt k))" using a by (rule answers_text_not_retryable)
  have "\<not> m < k"
  proof
    assume "m < k"
    then have "retryable (upstream e (?bt m))" using before by blast
    moreover have "Suc m < nat n" using \<open>m < k\<close> k by linarith
    ultimately show False using last by blast
  qed
  moreover have "\<not> k < m" using bm nk by blast
  ultimately have "m = k" by simp
  then show ?thesis using run a by (simp add: final_text_any)
qed

text \<open>
  Claim C7, as amended. When a request of the run, the first or one after retries, is answered
  with success and the text of the first part of the first candidate parses as JSON,
  \<^verbatim>\<open>process_image_to_json\<close> returns exactly the parsed value, with that request as its last.
  In the statement the first \<open>k\<close> requests are answered 429, 500 or 503 and request \<open>k\<close>
  carries the text; \<open>k = 0\<close> is the success at the first request. The endpoint then answers
  200 with the parsed object as the body, unchanged, provided the object is not empty and has
  no truthy \<^verbatim>\<open>error\<close> entry.
\<close>

theorem C7_parsed_object_returned:
  "(API_KEY e \<noteq> [] \<and> int k < n
      \<and> (\<forall>j<k. retryable
            (upstream e (backoff_trace (API_URL e) (build_payload img mime prompt schema) 0 j)))
      \<and> answers_text
            (upstream e (backoff_trace (API_URL e) (build_payload img mime prompt schema) 0 k)) s
      \<and> loads e s = Inr v
    \<longrightarrow> process_image_to_json e img mime prompt schema n []
        = (Inr v, backoff_trace (API_URL e) (build_payload img mime prompt schema) 0 k))
   \<and> (API_KEY e \<noteq> [] \<and> file_read file = Some contents \<and> contents \<noteq> []
      \<and> content_type file = Some m \<and> startswith m ''image/'' \<and> k' < 5
      \<and> (\<forall>j<k'. retryable
            (upstream e (backoff_trace (API_URL e) (endpoint_payload contents m) 0 j)))
      \<and> answers_text
            (upstream e (backoff_trace (API_URL e) (endpoint_payload contents m) 0 k')) s'
      \<and> loads e s' = Inr (PDict d) \<and> d \<noteq> [] \<and> \<not> truthy (dict_get d ''error'' PNone)
    \<longrightarrow> extract_id_data e file []
          = (Return (PDict d), backoff_trace (API_URL e) (endpoint_payload contents m) 0 k')
        \<and> http_status (fst (extract_id_data e file [])) = 200)"
proof -
  have first: "process_image_to_json e img mime prompt schema n []
        = (Inr v, backoff_trace (API_URL e) (build_payload img mime prompt schema) 0 k)"
    if h: "API_KEY e \<noteq> [] \<and> int k < n
      \<and> (\<forall>j<k. retryable
            (upstream e (backoff_trace (API_URL e) (build_payload img mime prompt schema) 0 j)))
      \<and> answers_text
            (upstream e (backoff_trace (API_URL e) (build_payload img mime prompt schema) 0 k)) s
      \<and> loads e s = Inr v"
    using process_success_at[of e k n img mime prompt schema s] h by (simp add: handled_def)
  have second: "extract_id_data e file []
          = (Return (PDict d), backoff_trace (API_URL e) (endpoint_payload contents m) 0 k')
        \<and> http_status (fst (extract_id_data e file [])) = 200"
    if h: "API_KEY e \<noteq> [] \<and> file_read file = Some contents \<and> contents \<noteq> []
      \<and> content_type file = Some m \<and> startswith m ''image/'' \<and> k' < 5
      \<and> (\<forall>j<k'. retryable
            (upstream e (backoff_trace (API_URL e) (endpoint_payload contents m) 0 j)))
      \<and> answers_text
            (upstream e (backoff_trace (API_URL e) (endpoint_payload contents m) 0 k')) s'
      \<and> loads e s' = Inr (PDict d) \<and> d \<noteq> [] \<and> \<not> truthy (dict_get d ''error'' PNone)"
  proof -
    from h have f: "file_read file = Some contents" "contents \<noteq> []"
      "content_type file = Some m" "startswith m ''image/''" by simp_all
    from h have k5: "int k' < 5" by simp
    have run: "process_image_to_json e (bytes_to_base64 contents) m ANALYSIS_PROMPT ID_CARD_SCHEMA 5 []
      = (Inr (PDict d), backoff_trace (API_URL e) (endpoint_payload contents m) 0 k')"
      using h process_success_at[of e k' 5 "bytes_to_base64 contents" m ANALYSIS_PROMPT
          ID_CARD_SCHEMA s', OF _ k5]
      by (simp add: endpoint_payload_def handled_def)
    have ne: "\<not> (\<exists>d'. PDict d = PDict d' \<and> truthy (dict_get d' ''error'' PNone))" using h by simp
    have t: "truthy (PDict d)" using h by simp
    have ep: "extract_id_data e file []
          = (Return (PDict d), backoff_trace (API_URL e) (endpoint_payload contents m) 0 k')"
      using endpoint_no_error[OF f run ne] t by (simp only: if_True)
    then show ?thesis by simp
  qed
  from first second show ?thesis by blast
qed

lemma error_object_run:
  "process_image_to_json env_error_object img mime prompt schema 5 [] =
     (Inr (PDict [(''error'', PStr ''denied'')]),
      [Post (API_URL env_error_object) (build_payload img mime prompt schema)])"
  using text_run[of error_text error_object img mime prompt schema]
  by (simp add: env_error_object_def error_object_def)

lemma error_object_endpoint:
  "extract_id_data env_error_object jpeg_file [] =
     (HTTPException 401 (PStr ''denied''),
      [Post (API_URL env_error_object) (endpoint_payload jpeg_bytes ''image/jpeg'')])"
proof -
  have run: "process_image_to_json env_error_object (bytes_to_base64 jpeg_bytes) ''image/jpeg''
      ANALYSIS_PROMPT ID_CARD_SCHEMA 5 []
      = (Inr (PDict [(''error'', PStr ''denied'')]),
         [Post (API_URL env_error_object) (endpoint_payload jpeg_bytes ''image/jpeg'')])"
    by (simp add: error_object_run endpoint_payload_def)
  have t: "truthy (dict_get [(''error'', PStr ''denied'')] ''error'' PNone)"
    by (simp add: dict_get_def)
  have g: "dict_get [(''error'', PStr ''denied'')] ''error'' PNone = PStr ''denied''"
    by (simp add: dict_get_def)
  from endpoint_401[OF jpeg_file_fields run t] show ?thesis by (simp only: g)
qed

lemma empty_object_run:
  "process_image_to_json env_empty_object img mime prompt schema 5 [] =
     (Inr (PDict []), [Post (API_URL env_empty_object) (build_payload img mime prompt schema)])"
  using text_run[of "''{}''" "PDict []" img mime prompt schema]
  by (simp add: env_empty_object_def)

lemma empty_object_endpoint:
  "http_status (fst (extract_id_data env_empty_object jpeg_file [])) = 503"
proof -
  have run: "process_image_to_json env_empty_object (bytes_to_base64 jpeg_bytes) ''image/jpeg''
      ANALYSIS_PROMPT ID_CARD_SCHEMA 5 []
      = (Inr (PDict []),
         [Post (API_URL env_empty_object) (endpoint_payload jpeg_bytes ''image/jpeg'')])"
    by (simp add: empty_object_run endpoint_payload_def)
  have ne: "\<not> (\<exists>d. PDict [] = PDict d \<and> truthy (dict_get d ''error'' PNone))"
    by (simp add: dict_get_def)
  have f: "\<not> truthy (PDict [])" by simp
  from endpoint_no_error[OF jpeg_file_fields run ne] f
  have "extract_id_data env_empty_object jpeg_file [] =
      (HTTPException 503 (PStr (
              ''Gemini API call failed or returned an unstructured '' @
              ''response after multiple retries.'')),
       [Post (API_URL env_empty_object) (endpoint_payload jpeg_bytes ''image/jpeg'')])"
    by (simp only: if_False)
  then show ?thesis by (simp only: fst_conv http_status.simps)
qed

text \<open>
  Claim C7 as stated fails at the endpoint: when the text is the JSON object with the one
  entry \<^verbatim>\<open>error\<close>, \<^verbatim>\<open>process_image_to_json\<close> returns that object and the endpoint answers
  401; when the text is the empty JSON object, it returns that object and the endpoint
  answers 503.
\<close>

theorem C7_counterexample:
  "fst (process_image_to_json env_error_object (bytes_to_base64 jpeg_bytes) ''image/jpeg''
          ANALYSIS_PROMPT ID_CARD_SCHEMA 5 []) = Inr (PDict [(''error'', PStr ''denied'')])
   \<and> http_status (fst (extract_id_data env_error_object jpeg_file [])) = 401
   \<and> fst (process_image_to_json env_empty_object (bytes_to_base64 jpeg_bytes) ''image/jpeg''
          ANALYSIS_PROMPT ID_CARD_SCHEMA 5 []) = Inr (PDict [])
   \<and> http_status (fst (extract_id_data env_empty_object jpeg_file [])) = 503"
  by (simp add: error_object_run error_object_endpoint empty_object_run empty_object_endpoint)

lemma jane_env_facts:
  "API_KEY env_jane \<noteq> []"
  "answers_text (upstream env_jane h) jane_text"
  "loads env_jane jane_text = Inr jane_doe"
  by (simp_all add: env_jane_def key_test_env upstream_test_env loads_test_env always_def
      answers_success_text parses_to_def)

lemma busy_then_jane_answers:
  "retryable (upstream env_busy_then_jane (backoff_trace u p 0 0))"
  "answers_text (upstream env_busy_then_jane (backoff_trace u p 0 1)) jane_text"
  "loads env_busy_then_jane jane_text = Inr jane_doe"
  "API_KEY env_busy_then_jane \<noteq> []"
  by (simp_all add: env_busy_then_jane_def upstream_test_env loads_test_env key_test_env
      busy_then_jane_def retryable_503 answers_success_text parses_to_def)

lemma backoff_trace_0_1:
  "backoff_trace u p 0 0 = [Post u p]"
  "backoff_trace u p 0 1 = [Post u p, Sleep 1, Post u p]"
  by simp_all

text \<open>
  The Jane Doe text of the specification, sent after one answer of 503 and sent at once: the
  parsed object with its seven entries is returned by \<^verbatim>\<open>process_image_to_json\<close> and sent by
  the endpoint with status 200.
\<close>

theorem C7_witness:
  "API_KEY env_busy_then_jane \<noteq> []
   \<and> retryable (upstream env_busy_then_jane
        [Post (API_URL env_busy_then_jane) (endpoint_payload jpeg_bytes ''image/jpeg'')])
   \<and> answers_text (upstream env_busy_then_jane
        [Post (API_URL env_busy_then_jane) (endpoint_payload jpeg_bytes ''image/jpeg''), Sleep 1,
         Post (API_URL env_busy_then_jane) (endpoint_payload jpeg_bytes ''image/jpeg'')]) jane_text
   \<and> loads env_busy_then_jane jane_text = Inr jane_doe
   \<and> process_image_to_json env_busy_then_jane (bytes_to_base64 jpeg_bytes) ''image/jpeg''
        ANALYSIS_PROMPT ID_CARD_SCHEMA 5 []
      = (Inr jane_doe,
         [Post (API_URL env_busy_then_jane) (endpoint_payload jpeg_bytes ''image/jpeg''), Sleep 1,
          Post (API_URL env_busy_then_jane) (endpoint_payload jpeg_bytes ''image/jpeg'')])
   \<and> extract_id_data env_busy_then_jane jpeg_file []
      = (Return jane_doe,
         [Post (API_URL env_busy_then_jane) (endpoint_payload jpeg_bytes ''image/jpeg''), Sleep 1,
          Post (API_URL env_busy_then_jane) (endpoint_payload jpeg_bytes ''image/jpeg'')])
   \<and> http_status (fst (extract_id_data env_busy_then_jane jpeg_file [])) = 200
   \<and> answers_text (upstream env_jane
        [Post (API_URL env_jane) (endpoint_payload jpeg_bytes ''image/jpeg'')]) jane_text
   \<and> process_image_to_json env_jane (bytes_to_base64 jpeg_bytes) ''image/jpeg''
        ANALYSIS_PROMPT ID_CARD_SCHEMA 5 []
      = (Inr jane_doe, [Post (API_URL env_jane) (endpoint_payload jpeg_bytes ''image/jpeg'')])
   \<and> extract_id_data env_jane jpeg_file []
      = (Return jane_doe, [Post (API_URL env_jane) (endpoint_payload jpeg_bytes ''image/jpeg'')])"
proof -
  let ?d = "[(''Name'', PStr ''Jane Doe''), (''IDNumber'', PStr ''X123''),
            (''DateOfBirth'', PStr ''1990-01-01''), (''IDExpiryDate'', PStr []),
            (''PassportNumber'', PStr []), (''PassportExpiryDate'', PStr []),
            (''Occupation'', PStr [])]"
  let ?img = "bytes_to_base64 jpeg_bytes"
  let ?p = "endpoint_payload jpeg_bytes ''image/jpeg''"
  let ?b = "env_busy_then_jane" and ?j = "env_jane"
  have jd: "jane_doe = PDict ?d" by (simp add: jane_doe_def)
  have dne: "?d \<noteq> []" by simp
  have nerr: "\<not> truthy (dict_get ?d ''error'' PNone)" by (simp add: dict_get_def)
  have pd: "build_payload ?img ''image/jpeg'' ANALYSIS_PROMPT ID_CARD_SCHEMA = ?p"
    by (simp add: endpoint_payload_def)
  \<comment> \<open>503, then the text: attempt 1\<close>
  have kb: "API_KEY ?b \<noteq> []" by (rule busy_then_jane_answers)
  have b0: "\<forall>j<Suc 0. retryable (upstream ?b (backoff_trace (API_URL ?b) ?p 0 j))"
    using busy_then_jane_answers(1) by simp
  have b1: "answers_text (upstream ?b (backoff_trace (API_URL ?b) ?p 0 (Suc 0))) jane_text"
    using busy_then_jane_answers(2) by simp
  have lb: "loads ?b jane_text = Inr (PDict ?d)" using busy_then_jane_answers(3) by (simp only: jd)
  note cb = C7_parsed_object_returned[of ?b "Suc 0" 5 ?img "''image/jpeg''" ANALYSIS_PROMPT
      ID_CARD_SCHEMA jane_text "PDict ?d" jpeg_file jpeg_bytes "''image/jpeg''" "Suc 0"
      jane_text ?d, unfolded pd]
  have i5: "int (Suc 0) < 5" "Suc 0 < 5" by simp_all
  from cb kb i5 b0 b1 lb
  have rb: "process_image_to_json ?b ?img ''image/jpeg'' ANALYSIS_PROMPT ID_CARD_SCHEMA 5 []
      = (Inr (PDict ?d), backoff_trace (API_URL ?b) ?p 0 (Suc 0))"
    by blast
  from cb kb jpeg_file_fields i5 b0 b1 lb dne nerr
  have eb: "extract_id_data ?b jpeg_file []
          = (Return (PDict ?d), backoff_trace (API_URL ?b) ?p 0 (Suc 0))
        \<and> http_status (fst (extract_id_data ?b jpeg_file [])) = 200"
    by blast
  \<comment> \<open>the text at once: attempt 0\<close>
  have kj: "API_KEY ?j \<noteq> []" by (rule jane_env_facts)
  have j0: "\<forall>j<(0::nat). retryable (upstream ?j (backoff_trace (API_URL ?j) ?p 0 j))" by simp
  have j1: "answers_text (upstream ?j (backoff_trace (API_URL ?j) ?p 0 0)) jane_text"
    by (rule jane_env_facts)
  have lj: "loads ?j jane_text = Inr (PDict ?d)" using jane_env_facts(3) by (simp only: jd)
  note cj = C7_parsed_object_returned[of ?j 0 5 ?img "''image/jpeg''" ANALYSIS_PROMPT
      ID_CARD_SCHEMA jane_text "PDict ?d" jpeg_file jpeg_bytes "''image/jpeg''" 0
      jane_text ?d, unfolded pd]
  have z5: "int 0 < 5" "(0::nat) < 5" by simp_all
  from cj kj z5 j0 j1 lj
  have rj: "process_image_to_json ?j ?img ''image/jpeg'' ANALYSIS_PROMPT ID_CARD_SCHEMA 5 []
      = (Inr (PDict ?d), backoff_trace (API_URL ?j) ?p 0 0)"
    by blast
  from cj kj jpeg_file_fields z5 j0 j1 lj dne nerr
  have ej: "extract_id_data ?j jpeg_file []
          = (Return (PDict ?d), backoff_trace (API_URL ?j) ?p 0 0)
        \<and> http_status (fst (extract_id_data ?j jpeg_file [])) = 200"
    by blast
  have a0: "retryable (upstream ?b [Post (API_URL ?b) ?p])"
    using busy_then_jane_answers(1)[of "API_URL ?b" ?p] by simp
  have a1: "answers_text (upstream ?b [Post (API_URL ?b) ?p, Sleep 1, Post (API_URL ?b) ?p]) jane_text"
    using busy_then_jane_answers(2)[of "API_URL ?b" ?p] by simp
  have a2: "answers_text (upstream ?j [Post (API_URL ?j) ?p]) jane_text"
    using j1 by simp
  show ?thesis
    using kb a0 a1 busy_then_jane_answers(3) rb eb a2 rj ej
    by (simp add: jd)
qed

section \<open>Claims about the answers of the endpoint\<close>

lemma jane_run:
  "process_image_to_json env_jane img mime prompt schema 5 [] =
     (Inr jane_doe, [Post (API_URL env_jane) (build_payload img mime prompt schema)])"
  using text_run[of jane_text jane_doe img mime prompt schema]
  by (simp add: env_jane_def)

lemma list_run:
  "process_image_to_json env_list img mime prompt schema 5 [] =
     (Inr (PList [PInt 1]), [Post (API_URL env_list) (build_payload img mime prompt schema)])"
  using text_run[of "''[1]''" "PList [PInt 1]" img mime prompt schema]
  by (simp add: env_list_def)

lemma endpoint_returns:
  assumes "file_read file = Some contents" and "contents \<noteq> []"
    and "content_type file = Some m" and "startswith m ''image/''"
    and run: "process_image_to_json e (bytes_to_base64 contents) m ANALYSIS_PROMPT ID_CARD_SCHEMA 5 tr
         = (Inr v, tr')"
    and noerr: "\<not> (\<exists>d. v = PDict d \<and> truthy (dict_get d ''error'' PNone))"
    and t: "truthy v"
  shows "extract_id_data e file tr = (Return v, tr')"
  using endpoint_no_error[OF assms(1-6)] t by (simp only: if_True)

text \<open>
  Claim C9, as amended. The endpoint returns a value, which is sent with status 200, only
  when \<^verbatim>\<open>process_image_to_json\<close> returned that value, the value is truthy and it is not a
  dictionary with a truthy \<^verbatim>\<open>error\<close> entry; the value need not be a dictionary. Conversely,
  after an accepted upload, every returned dictionary with a truthy \<^verbatim>\<open>error\<close> entry is
  answered 401 with that entry as the detail, and every other truthy value is returned.
\<close>

theorem C9_endpoint_outcomes:
  "(extract_id_data e file tr = (Return v, tr') \<longrightarrow>
      (\<exists>contents m. file_read file = Some contents \<and> content_type file = Some m
         \<and> process_image_to_json e (bytes_to_base64 contents) m ANALYSIS_PROMPT ID_CARD_SCHEMA 5 tr
            = (Inr v, tr'))
      \<and> truthy v \<and> \<not> (\<exists>d. v = PDict d \<and> truthy (dict_get d ''error'' PNone)))
   \<and> (file_read file = Some contents \<and> contents \<noteq> []
      \<and> content_type file = Some m \<and> startswith m ''image/''
      \<and> process_image_to_json e (bytes_to_base64 contents) m ANALYSIS_PROMPT ID_CARD_SCHEMA 5 tr
         = (Inr w, tr')
    \<longrightarrow> ((\<exists>d. w = PDict d \<and> truthy (dict_get d ''error'' PNone)) \<longrightarrow>
           (\<exists>d. w = PDict d
              \<and> extract_id_data e file tr = (HTTPException 401 (dict_get d ''error'' PNone), tr')))
        \<and> (truthy w \<and> \<not> (\<exists>d. w = PDict d \<and> truthy (dict_get d ''error'' PNone)) \<longrightarrow>
           extract_id_data e file tr = (Return w, tr')))"
proof -
  have a: "(\<exists>contents m. file_read file = Some contents \<and> content_type file = Some m
         \<and> process_image_to_json e (bytes_to_base64 contents) m ANALYSIS_PROMPT ID_CARD_SCHEMA 5 tr
            = (Inr v, tr'))
      \<and> truthy v \<and> \<not> (\<exists>d. v = PDict d \<and> truthy (dict_get d ''error'' PNone))"
    if "extract_id_data e file tr = (Return v, tr')"
    using endpoint_returns_only_after_call[OF that] by blast
  have b: "((\<exists>d. w = PDict d \<and> truthy (dict_get d ''error'' PNone)) \<longrightarrow>
           (\<exists>d. w = PDict d
              \<and> extract_id_data e file tr = (HTTPException 401 (dict_get d ''error'' PNone), tr')))
        \<and> (truthy w \<and> \<not> (\<exists>d. w = PDict d \<and> truthy (dict_get d ''error'' PNone)) \<longrightarrow>
           extract_id_data e file tr = (Return w, tr'))"
    if h: "file_read file = Some contents \<and> contents \<noteq> []
      \<and> content_type file = Some m \<and> startswith m ''image/''
      \<and> process_image_to_json e (bytes_to_base64 contents) m ANALYSIS_PROMPT ID_CARD_SCHEMA 5 tr
         = (Inr w, tr')"
  proof -
    from h have f: "file_read file = Some contents" "contents \<noteq> []"
      "content_type file = Some m" "startswith m ''image/''"
      and run: "process_image_to_json e (bytes_to_base64 contents) m ANALYSIS_PROMPT ID_CARD_SCHEMA 5 tr
         = (Inr w, tr')" by simp_all
    have b1: "\<exists>d. w = PDict d
        \<and> extract_id_data e file tr = (HTTPException 401 (dict_get d ''error'' PNone), tr')"
      if "\<exists>d. w = PDict d \<and> truthy (dict_get d ''error'' PNone)"
    proof -
      from that obtain d where d: "w = PDict d" "truthy (dict_get d ''error'' PNone)" by blast
      from endpoint_401[OF f run[unfolded d(1)] d(2)] d(1) show ?thesis by blast
    qed
    have b2: "extract_id_data e file tr = (Return w, tr')"
      if "truthy w \<and> \<not> (\<exists>d. w = PDict d \<and> truthy (dict_get d ''error'' PNone))"
      using endpoint_returns[OF f run] that by blast
    from b1 b2 show ?thesis by blast
  qed
  from a b show ?thesis by blast
qed

text \<open>
  Claim C9 as stated fails: when the text of the model parses to the list \<^verbatim>\<open>[1]\<close>,
  \<^verbatim>\<open>process_image_to_json\<close> returns that list, which is not a dictionary, and the endpoint
  answers 200 with it.
\<close>

theorem C9_counterexample:
  "process_image_to_json env_list (bytes_to_base64 jpeg_bytes) ''image/jpeg''
      ANALYSIS_PROMPT ID_CARD_SCHEMA 5 []
     = (Inr (PList [PInt 1]), [Post (API_URL env_list) (endpoint_payload jpeg_bytes ''image/jpeg'')])
   \<and> extract_id_data env_list jpeg_file []
     = (Return (PList [PInt 1]), [Post (API_URL env_list) (endpoint_payload jpeg_bytes ''image/jpeg'')])
   \<and> http_status (fst (extract_id_data env_list jpeg_file [])) = 200
   \<and> \<not> isinstance_dict (PList [PInt 1])"
proof -
  have run: "process_image_to_json env_list (bytes_to_base64 jpeg_bytes) ''image/jpeg''
      ANALYSIS_PROMPT ID_CARD_SCHEMA 5 []
     = (Inr (PList [PInt 1]), [Post (API_URL env_list) (endpoint_payload jpeg_bytes ''image/jpeg'')])"
    by (simp add: list_run endpoint_payload_def)
  have ep: "extract_id_data env_list jpeg_file []
     = (Return (PList [PInt 1]), [Post (API_URL env_list) (endpoint_payload jpeg_bytes ''image/jpeg'')])"
    by (rule endpoint_returns[OF jpeg_file_fields run]) simp_all
  show ?thesis using run ep by (simp add: isinstance_dict_def)
qed

text \<open>
  The Jane Doe object is returned with status 200; the object with the entry \<^verbatim>\<open>error\<close> is
  answered 401 with the value of that entry as the detail.
\<close>

theorem C9_witness:
  "extract_id_data env_jane jpeg_file []
     = (Return jane_doe, [Post (API_URL env_jane) (endpoint_payload jpeg_bytes ''image/jpeg'')])
   \<and> truthy jane_doe
   \<and> \<not> (\<exists>d. jane_doe = PDict d \<and> truthy (dict_get d ''error'' PNone))
   \<and> process_image_to_json env_error_object (bytes_to_base64 jpeg_bytes) ''image/jpeg''
        ANALYSIS_PROMPT ID_CARD_SCHEMA 5 []
      = (Inr (PDict [(''error'', PStr ''denied'')]),
         [Post (API_URL env_error_object) (endpoint_payload jpeg_bytes ''image/jpeg'')])
   \<and> truthy (dict_get [(''error'', PStr ''denied'')] ''error'' PNone)
   \<and> extract_id_data env_error_object jpeg_file []
      = (HTTPException 401 (dict_get [(''error'', PStr ''denied'')] ''error'' PNone),
         [Post (API_URL env_error_object) (endpoint_payload jpeg_bytes ''image/jpeg'')])"
proof -
  let ?trj = "[Post (API_URL env_jane) (endpoint_payload jpeg_bytes ''image/jpeg'')]"
  let ?tre = "[Post (API_URL env_error_object) (endpoint_payload jpeg_bytes ''image/jpeg'')]"
  let ?d = "[(''error'', PStr ''denied'')]"
  have runj: "process_image_to_json env_jane (bytes_to_base64 jpeg_bytes) ''image/jpeg''
      ANALYSIS_PROMPT ID_CARD_SCHEMA 5 [] = (Inr jane_doe, ?trj)"
    by (simp add: jane_run endpoint_payload_def)
  have epj: "extract_id_data env_jane jpeg_file [] = (Return jane_doe, ?trj)"
    by (rule endpoint_returns[OF jpeg_file_fields runj jane_no_error jane_truthy])
  from C9_endpoint_outcomes[of env_jane jpeg_file "[]" jane_doe ?trj] epj
  have j: "truthy jane_doe \<and> \<not> (\<exists>d. jane_doe = PDict d \<and> truthy (dict_get d ''error'' PNone))"
    by blast
  have rune: "process_image_to_json env_error_object (bytes_to_base64 jpeg_bytes) ''image/jpeg''
      ANALYSIS_PROMPT ID_CARD_SCHEMA 5 [] = (Inr (PDict ?d), ?tre)"
    by (simp add: error_object_run endpoint_payload_def)
  have t: "truthy (dict_get ?d ''error'' PNone)" by (simp add: dict_get_def)
  from C9_endpoint_outcomes[of env_error_object jpeg_file "[]" PNone ?tre jpeg_bytes "''image/jpeg''"
      "PDict ?d"] jpeg_file_fields rune t
  have "\<exists>d. PDict ?d = PDict d
      \<and> extract_id_data env_error_object jpeg_file [] = (HTTPException 401 (dict_get d ''error'' PNone), ?tre)"
    by blast
  then have e401: "extract_id_data env_error_object jpeg_file []
      = (HTTPException 401 (dict_get ?d ''error'' PNone), ?tre)" by auto
  show ?thesis using epj j rune t e401 by blast
qed

section \<open>Claims about parse failures\<close>

lemma process_text_any:
  assumes "API_KEY e \<noteq> []" and "0 < n"
    and "answers_text (upstream e [Post (API_URL e) (build_payload img mime prompt schema)]) s"
  shows "process_image_to_json e img mime prompt schema n [] =
     (handled (loads e s), [Post (API_URL e) (build_payload img mime prompt schema)])"
  using process_first_stop[OF assms(1,2) answers_text_not_retryable[OF assms(3)]]
    final_text_any[OF assms(3)]
  by simp

lemma raising_text_run:
  "process_image_to_json (test_env (always (success_text s)) (raises_on s ex)) img mime prompt
      schema 5 [] =
     (handled (Inl ex), [Post (API_URL (test_env (always (success_text s)) (raises_on s ex)))
                (build_payload img mime prompt schema)])"
  using process_text_any[of "test_env (always (success_text s)) (raises_on s ex)" 5
      img mime prompt schema s]
  by (simp add: key_test_env upstream_test_env loads_test_env always_def answers_success_text
        raises_on_def)

text \<open>
  Claim C6 fails on the code where the parser raises something else than JSONDecodeError. On
  a text of 1500 opening brackets \<^verbatim>\<open>json.loads\<close> raises RecursionError, on an integer of 4301
  digits ValueError; none of the three handlers catches either, so
  \<^verbatim>\<open>process_image_to_json\<close> (in both files) ends with that exception after one request
  instead of returning \<^verbatim>\<open>None\<close>, and the endpoint answers 500.
\<close>

theorem C6_parse_failure_uncaught:
  "process_image_to_json env_deep_text (bytes_to_base64 jpeg_bytes) ''image/jpeg''
      ANALYSIS_PROMPT ID_CARD_SCHEMA 5 []
     = (Inl RecursionError,
        [Post (API_URL env_deep_text) (endpoint_payload jpeg_bytes ''image/jpeg'')])
   \<and> main_process_image_to_json env_deep_text (bytes_to_base64 jpeg_bytes) ''image/jpeg''
      ANALYSIS_PROMPT ID_CARD_SCHEMA 5 []
     = (Inl RecursionError,
        [Post (API_URL env_deep_text) (endpoint_payload jpeg_bytes ''image/jpeg'')])
   \<and> extract_id_data env_deep_text jpeg_file []
     = (Uncaught RecursionError,
        [Post (API_URL env_deep_text) (endpoint_payload jpeg_bytes ''image/jpeg'')])
   \<and> process_image_to_json env_long_int (bytes_to_base64 jpeg_bytes) ''image/jpeg''
      ANALYSIS_PROMPT ID_CARD_SCHEMA 5 []
     = (Inl ValueError,
        [Post (API_URL env_long_int) (endpoint_payload jpeg_bytes ''image/jpeg'')])
   \<and> main_process_image_to_json env_long_int (bytes_to_base64 jpeg_bytes) ''image/jpeg''
      ANALYSIS_PROMPT ID_CARD_SCHEMA 5 []
     = (Inl ValueError,
        [Post (API_URL env_long_int) (endpoint_payload jpeg_bytes ''image/jpeg'')])
   \<and> extract_id_data env_long_int jpeg_file []
     = (Uncaught ValueError,
        [Post (API_URL env_long_int) (endpoint_payload jpeg_bytes ''image/jpeg'')])"
proof -
  have k1: "API_KEY env_deep_text \<noteq> []" by (simp add: env_deep_text_def key_test_env)
  have k2: "API_KEY env_long_int \<noteq> []" by (simp add: env_long_int_def key_test_env)
  have r1: "process_image_to_json env_deep_text (bytes_to_base64 jpeg_bytes) ''image/jpeg''
      ANALYSIS_PROMPT ID_CARD_SCHEMA 5 []
     = (Inl RecursionError,
        [Post (API_URL env_deep_text) (endpoint_payload jpeg_bytes ''image/jpeg'')])"
    using raising_text_run[of deep_text RecursionError "bytes_to_base64 jpeg_bytes"
        "''image/jpeg''" ANALYSIS_PROMPT ID_CARD_SCHEMA]
    by (simp add: env_deep_text_def endpoint_payload_def handled_def)
  have r2: "process_image_to_json env_long_int (bytes_to_base64 jpeg_bytes) ''image/jpeg''
      ANALYSIS_PROMPT ID_CARD_SCHEMA 5 []
     = (Inl ValueError,
        [Post (API_URL env_long_int) (endpoint_payload jpeg_bytes ''image/jpeg'')])"
    using raising_text_run[of long_int_text ValueError "bytes_to_base64 jpeg_bytes"
        "''image/jpeg''" ANALYSIS_PROMPT ID_CARD_SCHEMA]
    by (simp add: env_long_int_def endpoint_payload_def handled_def)
  have m1: "main_process_image_to_json env_deep_text (bytes_to_base64 jpeg_bytes) ''image/jpeg''
      ANALYSIS_PROMPT ID_CARD_SCHEMA 5 []
     = (Inl RecursionError,
        [Post (API_URL env_deep_text) (endpoint_payload jpeg_bytes ''image/jpeg'')])"
    using r1 by (simp add: main_process_eq[OF k1])
  have m2: "main_process_image_to_json env_long_int (bytes_to_base64 jpeg_bytes) ''image/jpeg''
      ANALYSIS_PROMPT ID_CARD_SCHEMA 5 []
     = (Inl ValueError,
        [Post (API_URL env_long_int) (endpoint_payload jpeg_bytes ''image/jpeg'')])"
    using r2 by (simp add: main_process_eq[OF k2])
  note e1 = endpoint_uncaught[OF jpeg_file_fields r1]
  note e2 = endpoint_uncaught[OF jpeg_file_fields r2]
  show ?thesis using r1 m1 e1 r2 m2 e2 by blast
qed

end
